theory Spec2Isabelle
  imports Main "HOL-Library.Word"
begin

section \<open>Data model\<close>

text \<open>
  The multi-emitter engine of jr: \<open>pkg/emitter/emitter.go\<close> (the \<open>Emitter\<close> struct, its
  \<open>Initialize\<close> and \<open>RunPreload\<close>) and the scheduler file of the same package
  (\<open>Initialize\<close>, \<open>DoLoop\<close>, \<open>doTemplate\<close>, \<open>CloseProducers\<close>, \<open>WriteStats\<close>).

  \<open>time.Duration\<close> is a count of nanoseconds (an int64). The code only compares durations
  with zero and hands them to the timers, so they are integers here.
\<close>

type_synonym duration = int

text \<open>
  The ways the process ends before its time: \<open>log.Fatalf\<close> writes its message and calls
  \<open>os.Exit(1)\<close>; a run-time panic (a method call on a nil interface) that nothing recovers
  kills the process as well.
\<close>

datatype fault = Fatal string | Panic string

text \<open>
  The sinks \<open>Emitter.Initialize\<close> builds, each with the fields it is given:
  the console producer with its output template, the Kafka manager with serializer, topic
  and template type, the Redis producer with its ttl and its client (the options read from
  its configuration file), the Mongo producer with its configuration.
\<close>

datatype 't Producer =
    KonsoleProducer 't
  | KafkaManager string string string
  | RedisProducer duration string
  | MongoProducer string

text \<open>
  The struct \<open>Emitter\<close>. \<open>doTemplate\<close> reads a field \<open>EmbeddedTemplate\<close> that the
  struct declaration of \<open>emitter.go\<close> does not list; it is a field here.
  A nil \<open>Producer\<close> is \<open>None\<close>.
\<close>

record 't Emitter =
  Name :: string
  Locale :: string
  Num :: int
  Frequency :: duration
  Duration :: duration
  Preload :: int
  ValueTemplate :: string
  KeyTemplate :: string
  OutputTemplate :: string
  EmbeddedTemplate :: string
  Output :: string
  Topic :: string
  Kcat :: bool
  Oneline :: bool
  Producer :: "'t Producer option"

text \<open>
  \<open>ctx.JrContext\<close>, the process-wide context: the fields the engine reads and writes.
  The two counters are int64 (\<open>GeneratedBytes += int64(len(v))\<close>), so they wrap.
\<close>

record JrContext =
  StartTime :: int
  GeneratedObjects :: "64 word"
  GeneratedBytes :: "64 word"
  JrLocale :: string
  CountryIndex :: int

text \<open>\<open>configuration.GlobalCfg\<close>: the fields the emitters read.\<close>

record GlobalConfiguration =
  TemplateDir :: string
  SchemaRegistry :: bool
  AutoCreate :: bool
  Serializer :: string
  KafkaConfig :: string
  RegistryConfig :: string
  RedisTtl :: duration
  RedisConfig :: string
  MongoConfig :: string

text \<open>
  What the engine calls and this repository's files do not define: the template engine
  (\<open>tpl.NewTpl\<close> returns a template and an error, \<open>Execute\<close> renders it against the
  context as it is at the call), the helpers of package \<open>functions\<close>, the file system and
  environment, the Redis client library, and the Kafka, Mongo and console producers.
  A producer operation of another package answers \<open>None\<close> when it returns, or the fault
  that ends the process. \<open>os.ReadFile\<close> and \<open>json.Unmarshal\<close> answer the error (\<open>Inl\<close>) or
  the data; the calls of the Redis client answer the error, if any.
\<close>

record 't env =
  NewTpl :: "string \<Rightarrow> string \<Rightarrow> 't \<times> string option"
  Execute :: "'t \<Rightarrow> JrContext \<Rightarrow> string"
  IndexOf :: "string \<Rightarrow> string \<Rightarrow> int"
  ToUpper :: "string \<Rightarrow> string"
  ExpandEnv :: "string \<Rightarrow> string"
  ReadFile :: "string \<Rightarrow> string + string"
  jsonUnmarshal :: "string \<Rightarrow> string + string"
  redisSet :: "string \<Rightarrow> string \<Rightarrow> string \<Rightarrow> duration \<Rightarrow> string option"
  redisClose :: "string \<Rightarrow> string option"
  kafkaInitialize :: "string \<Rightarrow> fault option"
  kafkaInitializeSchemaRegistry :: "string \<Rightarrow> fault option"
  kafkaCreateTopic :: "string \<Rightarrow> fault option"
  mongoInitialize :: "string \<Rightarrow> fault option"
  sinkProduce :: "'t Producer \<Rightarrow> string \<Rightarrow> string \<Rightarrow> fault option"
  sinkClose :: "'t Producer \<Rightarrow> fault option"

text \<open>
  What a thread of the program does that can be seen from outside, in order: template
  parses, log lines, the locale it sets, records handed to a sink, sinks closed, tickers
  made and stopped, the cancellation of the interrupt context, and the lines of the report.
\<close>

datatype report_line =
    Blank
  | ElapsedTime duration
  | DataObjects "64 word"
  | DataBytes "64 word"
  | Throughput "64 word" duration

datatype 't label =
    L_NewTpl string string
  | L_Log string
  | L_SetLocale string
  | L_Produce "'t Producer" string string
  | L_Close "'t Producer"
  | L_NewTicker duration
  | L_TickerStop
  | L_Stop
  | L_Print report_line

text \<open>
  The state sequential code runs in: the shared context, what this thread has done so
  far, and the fault that ended the process, if one did.
\<close>

record 't world =
  ctx :: JrContext
  trace :: "'t label list"
  halted :: "fault option"

definition emit :: "'t label list \<Rightarrow> 't world \<Rightarrow> 't world" where
  "emit ls w = w\<lparr>trace := trace w @ ls\<rparr>"

definition halt :: "fault \<Rightarrow> 't world \<Rightarrow> 't world" where
  "halt f w = w\<lparr>halted := Some f\<rparr>"

text \<open>\<open>log.Fatalf\<close>: the message goes to the log, then \<open>os.Exit(1)\<close>.\<close>

definition Fatalf :: "string \<Rightarrow> 't world \<Rightarrow> 't world" where
  "Fatalf msg w = halt (Fatal msg) (emit [L_Log msg] w)"

section \<open>Sinks\<close>

text \<open>
  \<open>RedisProducer.Produce\<close>: \<open>client.Set\<close>, and \<open>log.Fatalf\<close> when it fails, its format a
  colon, a newline and the error. The console, Kafka and Mongo producers are in packages of
  their own. A call on a nil \<open>Producer\<close> panics. The producer of
  \<open>pkg/producers/test\<close> is written against a later interface (its \<open>Close\<close> returns an
  error, always nil) and no function here builds it.
\<close>

definition Produce :: "'t env \<Rightarrow> 't Producer option \<Rightarrow> string \<Rightarrow> string \<Rightarrow> 't world \<Rightarrow> 't world" where
  "Produce E p k v w =
     (case p of
        None \<Rightarrow> halt (Panic ''invalid memory address or nil pointer dereference'') w
      | Some (RedisProducer ttl client) \<Rightarrow>
          (case redisSet E client k v ttl of
             None \<Rightarrow> emit [L_Produce (RedisProducer ttl client) k v] w
           | Some err \<Rightarrow> Fatalf (''Failed to write data in Redis:'' @ [CHR 0x0A] @ err) w)
      | Some q \<Rightarrow>
          (case sinkProduce E q k v of
             None \<Rightarrow> emit [L_Produce q k v] w
           | Some f \<Rightarrow> halt f w))"

text \<open>\<open>RedisProducer.Close\<close>: \<open>client.Close\<close>, and \<open>log.Fatalf\<close> when it fails.\<close>

definition Close :: "'t env \<Rightarrow> 't Producer \<Rightarrow> 't world \<Rightarrow> 't world" where
  "Close E p w =
     (case p of
        RedisProducer ttl client \<Rightarrow>
          (case redisClose E client of
             None \<Rightarrow> emit [L_Close p] w
           | Some err \<Rightarrow> Fatalf (''Failed to close Redis connection:'' @ [CHR 0x0A] @ err) w)
      | _ \<Rightarrow>
          (case sinkClose E p of
             None \<Rightarrow> emit [L_Close p] w
           | Some f \<Rightarrow> halt f w))"

text \<open>
  \<open>RedisProducer.Initialize\<close>: read the configuration file, parse it, make the client;
  either failure is a \<open>log.Fatalf\<close>.
\<close>

definition createRedisProducer :: "'t env \<Rightarrow> duration \<Rightarrow> string \<Rightarrow> 't world \<Rightarrow> 't Producer option \<times> 't world" where
  "createRedisProducer E ttl redisConfig w =
     (case ReadFile E redisConfig of
        Inl err \<Rightarrow> (None, Fatalf (''Failed to load Redis configFile: '' @ err) w)
      | Inr data \<Rightarrow>
          (case jsonUnmarshal E data of
             Inl err \<Rightarrow> (None, Fatalf (''Failed to parsa configuration parameters: '' @ err) w)
           | Inr options \<Rightarrow> (Some (RedisProducer ttl options), w)))"

definition createMongoProducer :: "'t env \<Rightarrow> string \<Rightarrow> 't world \<Rightarrow> 't Producer option \<times> 't world" where
  "createMongoProducer E mongoConfig w =
     (case mongoInitialize E mongoConfig of
        Some f \<Rightarrow> (None, halt f w)
      | None \<Rightarrow> (Some (MongoProducer mongoConfig), w))"

definition createKafkaProducer :: "'t env \<Rightarrow> GlobalConfiguration \<Rightarrow> string \<Rightarrow> string \<Rightarrow> 't world \<Rightarrow> 't Producer option \<times> 't world" where
  "createKafkaProducer E conf topic templateType w =
     (case kafkaInitialize E (KafkaConfig conf) of
        Some f \<Rightarrow> (None, halt f w)
      | None \<Rightarrow>
         (case (if SchemaRegistry conf then kafkaInitializeSchemaRegistry E (RegistryConfig conf) else None) of
            Some f \<Rightarrow> (None, halt f w)
          | None \<Rightarrow>
             (case (if AutoCreate conf then kafkaCreateTopic E topic else None) of
                Some f \<Rightarrow> (None, halt f w)
              | None \<Rightarrow> (Some (KafkaManager (Serializer conf) topic templateType), w))))"

section \<open>Emitters: initialization and preload\<close>

text \<open>
  A call of \<open>tpl.NewTpl\<close> whose error the caller logs (\<open>log.Println(err)\<close>) and then
  goes on with the template it was given.
\<close>

definition parse_logged :: "'t env \<Rightarrow> string \<Rightarrow> string \<Rightarrow> 't world \<Rightarrow> 't \<times> 't world" where
  "parse_logged E name source w =
     (case NewTpl E name source of
        (t, None) \<Rightarrow> (t, emit [L_NewTpl name source] w)
      | (t, Some err) \<Rightarrow> (t, emit [L_NewTpl name source, L_Log err] w))"

text \<open>
  The body of the record loop, the same statements in \<open>RunPreload\<close> and in \<open>doTemplate\<close>:
  render the key, render the value, hand both to the sink, count the record and the bytes
  of its value. Nothing runs once the process has ended.
\<close>

definition one_record :: "'t env \<Rightarrow> 't Producer option \<Rightarrow> 't \<Rightarrow> 't \<Rightarrow> 't world \<Rightarrow> 't world" where
  "one_record E p keyTpl valueTpl w =
     (if halted w \<noteq> None then w
      else
        let k = Execute E keyTpl (ctx w);
            v = Execute E valueTpl (ctx w);
            w1 = Produce E p k v w
        in if halted w1 \<noteq> None then w1
           else w1\<lparr>ctx := (ctx w1)\<lparr>GeneratedObjects := GeneratedObjects (ctx w1) + 1,
                                   GeneratedBytes := GeneratedBytes (ctx w1) + of_nat (length v)\<rparr>\<rparr>)"

text \<open>\<open>for i := 0; i < n; i++\<close> around that body; the argument counts the rounds left.\<close>

fun record_loop :: "'t env \<Rightarrow> 't Producer option \<Rightarrow> 't \<Rightarrow> 't \<Rightarrow> nat \<Rightarrow> 't world \<Rightarrow> 't world" where
  "record_loop E p keyTpl valueTpl 0 w = w"
| "record_loop E p keyTpl valueTpl (Suc n) w =
     record_loop E p keyTpl valueTpl n (one_record E p keyTpl valueTpl w)"

text \<open>
  \<open>(e *Emitter) RunPreload\<close>. The value template is read from the template directory;
  the error of \<open>os.ReadFile\<close> is overwritten unread, so a missing file is the empty source.
\<close>

definition RunPreload :: "'t env \<Rightarrow> GlobalConfiguration \<Rightarrow> 't Emitter \<Rightarrow> 't world \<Rightarrow> 't world" where
  "RunPreload E conf e w =
     (if halted w \<noteq> None then w
      else
        let (keyTpl, w1) = parse_logged E ''key'' (KeyTemplate e) w;
            templatePath = ExpandEnv E (TemplateDir conf) @ ''/'' @ ValueTemplate e @ ''.tpl'';
            vt = (case ReadFile E templatePath of Inl err \<Rightarrow> [] | Inr d \<Rightarrow> d);
            (valueTpl, w2) = parse_logged E ''value'' vt w1
        in record_loop E (Producer e) keyTpl valueTpl (nat (Preload e)) w2)"

text \<open>
  \<open>(e *Emitter) Initialize\<close>: the output kind selects the sink. The error of the
  output template's parse is dropped. Kind \<open>http\<close> and every unknown kind leave the
  \<open>Producer\<close> as it was and say nothing.
\<close>

definition set_Producer :: "'t Emitter \<Rightarrow> 't Producer option \<times> 't world \<Rightarrow> 't Emitter \<times> 't world" where
  "set_Producer e r =
     (case r of
        (Some p, w) \<Rightarrow> (e\<lparr>Producer := Some p\<rparr>, w)
      | (None, w) \<Rightarrow> (e, w))"

definition Emitter_Initialize :: "'t env \<Rightarrow> GlobalConfiguration \<Rightarrow> 't Emitter \<Rightarrow> 't world \<Rightarrow> 't Emitter \<times> 't world" where
  "Emitter_Initialize E conf e w =
     (if halted w \<noteq> None then (e, w)
      else
        let w0 = emit [L_NewTpl ''out'' (OutputTemplate e)] w;
            out = fst (NewTpl E ''out'' (OutputTemplate e))
        in if Output e = ''stdout'' then (e\<lparr>Producer := Some (KonsoleProducer out)\<rparr>, w0)
           else if Output e = ''kafka'' then
             set_Producer e (createKafkaProducer E conf (Topic e) (ValueTemplate e) w0)
           else
             let w1 = (if SchemaRegistry conf
                       then emit [L_Log ''Ignoring schemaRegistry and/or serializer when output not set to kafka''] w0
                       else w0)
             in if Output e = ''redis'' then
                  set_Producer e (createRedisProducer E (RedisTtl conf) (RedisConfig conf) w1)
                else if Output e = ''mongo'' \<or> Output e = ''mongodb'' then
                  set_Producer e (createMongoProducer E (MongoConfig conf) w1)
                else (e, w1))"

section \<open>The scheduler file\<close>

text \<open>
  \<open>functions.Contains\<close> is defined in another package of the repository; by its name
  and its use it tells whether the slice holds the string.
\<close>

fun Contains :: "string list \<Rightarrow> string \<Rightarrow> bool" where
  "Contains [] n = False"
| "Contains (x # xs) n = (if x = n then True else Contains xs n)"

text \<open>One emitter's turn in \<open>Initialize\<close>: \<open>es[i].Initialize\<close>, then \<open>es[i].RunPreload\<close>.\<close>

definition init_one :: "'t env \<Rightarrow> GlobalConfiguration \<Rightarrow> 't Emitter \<Rightarrow> 't world \<Rightarrow> 't Emitter \<times> 't world" where
  "init_one E conf e w =
     (let (e1, w1) = Emitter_Initialize E conf e w
      in (e1, RunPreload E conf e1 w1))"

text \<open>
  The two loops of the package-level \<open>Initialize\<close>, over the slice from left to right.
  The emitters are updated in place; the result is the slice after the loop.
\<close>

fun init_all :: "'t env \<Rightarrow> GlobalConfiguration \<Rightarrow> 't Emitter list \<Rightarrow> 't world \<Rightarrow> 't Emitter list \<times> 't world" where
  "init_all E conf [] w = ([], w)"
| "init_all E conf (e # es) w =
     (let (e1, w1) = init_one E conf e w;
          (es1, w2) = init_all E conf es w1
      in (e1 # es1, w2))"

fun init_named :: "'t env \<Rightarrow> GlobalConfiguration \<Rightarrow> string list \<Rightarrow> 't Emitter list \<Rightarrow> 't world \<Rightarrow> 't Emitter list \<times> 't world" where
  "init_named E conf names [] w = ([], w)"
| "init_named E conf names (e # es) w =
     (let (e1, w1) = (if Contains names (Name e) then init_one E conf e w else (e, w));
          (es1, w2) = init_named E conf names es w1
      in (e1 # es1, w2))"

definition Initialize :: "'t env \<Rightarrow> GlobalConfiguration \<Rightarrow> string list \<Rightarrow> 't Emitter list \<Rightarrow> 't world \<Rightarrow> 't Emitter list \<times> 't world" where
  "Initialize E conf emitterNames es w =
     (if length emitterNames = 0 then init_all E conf es w
      else init_named E conf emitterNames es w)"

text \<open>
  \<open>doTemplate\<close>, run from start to end by one thread: set the locale and the country
  index in the shared context, parse the key and the value template, then the record loop
  \<open>Num\<close> times (no time when \<open>Num\<close> is zero or negative).
\<close>

definition doTemplate :: "'t env \<Rightarrow> 't Emitter \<Rightarrow> 't world \<Rightarrow> 't world" where
  "doTemplate E e w =
     (if halted w \<noteq> None then w
      else
        let w1 = emit [L_SetLocale (Locale e)]
                   (w\<lparr>ctx := (ctx w)\<lparr>JrLocale := Locale e,
                                      CountryIndex := IndexOf E (ToUpper E (Locale e)) ''country''\<rparr>\<rparr>);
            (keyTpl, w2) = parse_logged E ''key'' (KeyTemplate e) w1;
            (valueTpl, w3) = parse_logged E ''value'' (EmbeddedTemplate e) w2
        in record_loop E (Producer e) keyTpl valueTpl (nat (Num e)) w3)"

text \<open>\<open>CloseProducers\<close>: close every producer that is not nil, in the order of the slice.\<close>

fun CloseProducers :: "'t env \<Rightarrow> 't Emitter list \<Rightarrow> 't world \<Rightarrow> 't world" where
  "CloseProducers E [] w = w"
| "CloseProducers E (e # es) w =
     (if halted w \<noteq> None then w
      else CloseProducers E es (case Producer e of None \<Rightarrow> w | Some p \<Rightarrow> Close E p w))"

text \<open>
  \<open>Duration.Round\<close> of Go's library, on a \<open>Duration\<close> within the int64 range: to the
  nearest multiple of \<open>m\<close>, halfway values away from zero, the largest or smallest
  \<open>Duration\<close> when the result leaves the range, \<open>d\<close> itself when \<open>m \<le> 0\<close>.
  Go's \<open>%\<close> truncates towards zero.
\<close>

definition maxDuration :: duration where
  "maxDuration = 2 ^ 63 - 1"

definition minDuration :: duration where
  "minDuration = - (2 ^ 63)"

definition Second :: duration where
  "Second = 1000000000"

definition go_rem :: "int \<Rightarrow> int \<Rightarrow> int" where
  "go_rem a b = sgn a * (\<bar>a\<bar> mod \<bar>b\<bar>)"

definition Round :: "duration \<Rightarrow> duration \<Rightarrow> duration" where
  "Round d m =
     (if m \<le> 0 then d
      else
        let r = go_rem d m
        in if d < 0 then
             (if (- r) + (- r) < m then d + (- r)
              else if minDuration \<le> d - m + (- r) then d - m + (- r)
              else minDuration)
           else
             (if r + r < m then d - r
              else if d + m - r \<le> maxDuration then d + m - r
              else maxDuration))"

text \<open>
  \<open>time.Since(t)\<close> at the instant \<open>now\<close>: the distance as a \<open>Duration\<close>, the largest or the
  smallest \<open>Duration\<close> when the distance is outside the range.
\<close>

definition Since :: "int \<Rightarrow> int \<Rightarrow> duration" where
  "Since now t =
     (if now - t > maxDuration then maxDuration
      else if now - t < minDuration then minDuration
      else now - t)"

text \<open>
  \<open>WriteStats\<close>, at the instant \<open>now\<close> (and \<open>writeStats\<close> of \<open>cmd/run.go\<close>, the same
  statements): six lines to standard error, none of them under a condition. The throughput is the float64 quotient of the bytes and
  \<open>elapsed.Seconds()\<close>; the line is kept here with its two operands.
\<close>

definition WriteStats :: "int \<Rightarrow> 't world \<Rightarrow> 't world" where
  "WriteStats now w =
     (if halted w \<noteq> None then w
      else
        let elapsed = Since now (StartTime (ctx w))
        in emit [L_Print Blank,
                 L_Print (ElapsedTime (Round elapsed (1 * Second))),
                 L_Print (DataObjects (GeneratedObjects (ctx w))),
                 L_Print (DataBytes (GeneratedBytes (ctx w))),
                 L_Print (Throughput (GeneratedBytes (ctx w)) elapsed),
                 L_Print Blank] w)"

section \<open>DoLoop: the goroutines, step by step\<close>

text \<open>
  \<open>DoLoop\<close> starts one goroutine per emitter, and all of them run \<open>doTemplate\<close> on the
  one shared context with no lock. So a pass is a sequence of steps here, each step one
  access to what is shared, and steps of different goroutines interleave.
  \<open>GeneratedObjects++\<close> and \<open>GeneratedBytes += int64(len(v))\<close> on a plain struct field are
  a read of the field followed by a write of the sum: two steps each.

  The program points of \<open>doTemplate\<close>, with the locals that are live there: the parsed
  templates, the loop counter \<open>i\<close>, the rendered key and value, the value read from a
  counter.
\<close>

datatype 't pc =
    P_SetLocale
  | P_SetCountry
  | P_ParseKey
  | P_ParseValue 't
  | P_ExecKey 't 't nat
  | P_ExecValue 't 't nat string
  | P_Produce 't 't nat string string
  | P_LoadObjects 't 't nat string
  | P_StoreObjects 't 't nat string "64 word"
  | P_LoadBytes 't 't nat string
  | P_StoreBytes 't 't nat string "64 word"
  | P_Return

text \<open>The loop test \<open>i < emitter.Num\<close>.\<close>

definition loop_head :: "'t Emitter \<Rightarrow> 't \<Rightarrow> 't \<Rightarrow> nat \<Rightarrow> 't pc" where
  "loop_head e keyTpl valueTpl i = (if int i < Num e then P_ExecKey keyTpl valueTpl i else P_Return)"

fun pass_step :: "'t env \<Rightarrow> 't Emitter \<Rightarrow> 't pc \<Rightarrow> 't world \<Rightarrow> 't pc \<times> 't world" where
  "pass_step E e P_SetLocale w =
     (P_SetCountry, emit [L_SetLocale (Locale e)] (w\<lparr>ctx := (ctx w)\<lparr>JrLocale := Locale e\<rparr>\<rparr>))"
| "pass_step E e P_SetCountry w =
     (P_ParseKey, w\<lparr>ctx := (ctx w)\<lparr>CountryIndex := IndexOf E (ToUpper E (Locale e)) ''country''\<rparr>\<rparr>)"
| "pass_step E e P_ParseKey w =
     (let (keyTpl, w1) = parse_logged E ''key'' (KeyTemplate e) w in (P_ParseValue keyTpl, w1))"
| "pass_step E e (P_ParseValue keyTpl) w =
     (let (valueTpl, w1) = parse_logged E ''value'' (EmbeddedTemplate e) w
      in (loop_head e keyTpl valueTpl 0, w1))"
| "pass_step E e (P_ExecKey keyTpl valueTpl i) w =
     (P_ExecValue keyTpl valueTpl i (Execute E keyTpl (ctx w)), w)"
| "pass_step E e (P_ExecValue keyTpl valueTpl i k) w =
     (P_Produce keyTpl valueTpl i k (Execute E valueTpl (ctx w)), w)"
| "pass_step E e (P_Produce keyTpl valueTpl i k v) w =
     (let w1 = Produce E (Producer e) k v w
      in (if halted w1 = None then P_LoadObjects keyTpl valueTpl i v
          else P_Produce keyTpl valueTpl i k v, w1))"
| "pass_step E e (P_LoadObjects keyTpl valueTpl i v) w =
     (P_StoreObjects keyTpl valueTpl i v (GeneratedObjects (ctx w)), w)"
| "pass_step E e (P_StoreObjects keyTpl valueTpl i v x) w =
     (P_LoadBytes keyTpl valueTpl i v, w\<lparr>ctx := (ctx w)\<lparr>GeneratedObjects := x + 1\<rparr>\<rparr>)"
| "pass_step E e (P_LoadBytes keyTpl valueTpl i v) w =
     (P_StoreBytes keyTpl valueTpl i v (GeneratedBytes (ctx w)), w)"
| "pass_step E e (P_StoreBytes keyTpl valueTpl i v x) w =
     (loop_head e keyTpl valueTpl (Suc i), w\<lparr>ctx := (ctx w)\<lparr>GeneratedBytes := x + of_nat (length v)\<rparr>\<rparr>)"
| "pass_step E e P_Return w = (P_Return, w)"

text \<open>
  A pass that nothing interleaves with: the steps of one goroutine one after the other,
  until \<open>doTemplate\<close> returns or the process ends, for at most \<open>n\<close> steps.
\<close>

fun run_pass :: "'t env \<Rightarrow> 't Emitter \<Rightarrow> nat \<Rightarrow> 't pc \<Rightarrow> 't world \<Rightarrow> 't pc \<times> 't world" where
  "run_pass E e 0 pc w = (pc, w)"
| "run_pass E e (Suc n) pc w =
     (if pc = P_Return then (pc, w)
      else if halted w = None
      then (let (pc1, w1) = pass_step E e pc w in run_pass E e n pc1 w1)
      else (pc, w))"

text \<open>
  A goroutine of \<open>DoLoop\<close>: not yet started by the loop; started and about to test
  \<open>frequency > 0\<close>; blocked in the \<open>select\<close> of the ticker loop; inside \<open>doTemplate\<close>
  (the flag says that this is the single pass of the \<open>else\<close> branch); returned.
\<close>

datatype 't gstate =
    G_None
  | G_Start
  | G_Select
  | G_Pass bool "'t pc"
  | G_Done

text \<open>
  The deadline \<open>time.AfterFunc(es[index].Duration, ...)\<close>: armed with the instant it is
  due; fired, its function blocked in the send on the unbuffered stop channel; sent, once
  the goroutine's \<open>select\<close> has received.
  \<open>time.AfterFunc\<close> waits for the duration to elapse: a duration of zero or less has
  elapsed at once.
\<close>

datatype timer = T_None | T_Armed int | T_Sending | T_Sent

text \<open>
  \<open>time.NewTicker(d)\<close>: the next instant it is due, whether a tick waits in its channel
  (which holds one tick; a tick that finds it full is dropped), whether it was stopped.
\<close>

record ticker =
  next_tick :: int
  buffered :: bool
  stopped :: bool

record 't task =
  gst :: "'t gstate"
  tick :: "ticker option"
  deadline :: timer
  did :: "'t label list"

text \<open>
  The state of a run of \<open>DoLoop\<close>: the shared context, the fault that ended the process,
  the goroutines, the index the \<open>for\<close> loop has reached, the time since \<open>DoLoop\<close> was
  entered, whether the interrupt context is done (\<open>controlC.Done()\<close>), whether \<open>DoLoop\<close> has
  returned.
\<close>

record 't sched =
  shared :: JrContext
  dead :: "fault option"
  tasks :: "'t task list"
  spawned :: nat
  clock :: int
  cancelled :: bool
  returned :: bool

definition idle_task :: "'t task" where
  "idle_task = \<lparr>gst = G_None, tick = None, deadline = T_None, did = []\<rparr>"

definition DoLoop_init :: "JrContext \<Rightarrow> nat \<Rightarrow> 't sched" where
  "DoLoop_init c n =
     \<lparr>shared = c, dead = None, tasks = replicate n idle_task, spawned = 0, clock = 0,
      cancelled = False, returned = False\<rparr>"

text \<open>
  What can happen next: the \<open>for\<close> loop starts the next goroutine and arms its deadline;
  a goroutine that is not blocked takes its next step; a blocked goroutine's \<open>select\<close>
  takes the tick, the stop signal or the interrupt; a deadline or a ticker that is due
  fires; the interrupt arrives; time passes; \<open>wg.Wait()\<close> returns.
\<close>

datatype event =
    Spawn
  | Step nat
  | RecvTick nat
  | RecvStop nat
  | RecvIntr nat
  | Fire nat
  | TickerFire nat
  | Interrupt
  | Advance int
  | Return

definition stop_ticker :: "ticker option \<Rightarrow> ticker option" where
  "stop_ticker t = map_option (\<lambda>k. k\<lparr>stopped := True\<rparr>) t"

definition set_task :: "nat \<Rightarrow> 't task \<Rightarrow> 't sched \<Rightarrow> 't sched" where
  "set_task i t s = s\<lparr>tasks := (tasks s)[i := t]\<rparr>"

text \<open>A step of goroutine \<open>i\<close> that is not blocked.\<close>

definition go_step :: "'t env \<Rightarrow> 't Emitter \<Rightarrow> nat \<Rightarrow> 't task \<Rightarrow> 't sched \<Rightarrow> 't sched option" where
  "go_step E e i t s =
     (case gst t of
        G_Start \<Rightarrow>
          (if Frequency e > 0
           then Some (set_task i (t\<lparr>gst := G_Select,
                                     tick := Some \<lparr>next_tick = clock s + Frequency e, buffered = False, stopped = False\<rparr>,
                                     did := did t @ [L_NewTicker (Frequency e)]\<rparr>) s)
           else Some (set_task i (t\<lparr>gst := G_Pass True P_SetLocale\<rparr>) s))
      | G_Pass once P_Return \<Rightarrow>
          Some (set_task i (t\<lparr>gst := (if once then G_Done else G_Select)\<rparr>) s)
      | G_Pass once pc \<Rightarrow>
          (let (pc1, w1) = pass_step E e pc \<lparr>ctx = shared s, trace = did t, halted = None\<rparr>
           in Some (set_task i (t\<lparr>gst := G_Pass once pc1, did := trace w1\<rparr>)
                      (s\<lparr>shared := ctx w1, dead := halted w1\<rparr>)))
      | _ \<Rightarrow> None)"

text \<open>
  One event, or \<open>None\<close> where it cannot happen. Nothing happens after the process has
  ended or \<open>DoLoop\<close> has returned.
\<close>

definition sstep :: "'t env \<Rightarrow> 't Emitter list \<Rightarrow> event \<Rightarrow> 't sched \<Rightarrow> 't sched option" where
  "sstep E es ev s =
     (if dead s = None \<and> \<not> returned s
      then case ev of
        Spawn \<Rightarrow>
          (if spawned s < length es \<and> spawned s < length (tasks s)
           then Some (s\<lparr>tasks := (tasks s)[spawned s :=
                              \<lparr>gst = G_Start, tick = None,
                               deadline = T_Armed (clock s + Duration (es ! spawned s)), did = []\<rparr>],
                         spawned := Suc (spawned s)\<rparr>)
           else None)
      | Step i \<Rightarrow>
          (if i < spawned s \<and> i < length es \<and> i < length (tasks s)
           then go_step E (es ! i) i (tasks s ! i) s
           else None)
      | RecvTick i \<Rightarrow>
          (if i < length (tasks s) \<and> gst (tasks s ! i) = G_Select
           then (case tick (tasks s ! i) of
                   None \<Rightarrow> None
                 | Some k \<Rightarrow>
                     if buffered k
                     then Some (set_task i ((tasks s ! i)\<lparr>gst := G_Pass False P_SetLocale,
                                                            tick := Some (k\<lparr>buffered := False\<rparr>)\<rparr>) s)
                     else None)
           else None)
      | RecvStop i \<Rightarrow>
          (if i < length (tasks s) \<and> gst (tasks s ! i) = G_Select \<and> deadline (tasks s ! i) = T_Sending
           then Some (set_task i ((tasks s ! i)\<lparr>gst := G_Done, deadline := T_Sent,
                                                  tick := stop_ticker (tick (tasks s ! i)),
                                                  did := did (tasks s ! i) @ [L_TickerStop]\<rparr>) s)
           else None)
      | RecvIntr i \<Rightarrow>
          (if i < length (tasks s) \<and> gst (tasks s ! i) = G_Select \<and> cancelled s
           then Some (set_task i ((tasks s ! i)\<lparr>gst := G_Done,
                                                  tick := stop_ticker (tick (tasks s ! i)),
                                                  did := did (tasks s ! i) @ [L_Stop, L_TickerStop]\<rparr>) s)
           else None)
      | Fire i \<Rightarrow>
          (if i < length (tasks s)
           then (case deadline (tasks s ! i) of
                   T_Armed due \<Rightarrow>
                     if due \<le> clock s
                     then Some (set_task i ((tasks s ! i)\<lparr>deadline := T_Sending\<rparr>) s)
                     else None
                 | _ \<Rightarrow> None)
           else None)
      | TickerFire i \<Rightarrow>
          (if i < length (tasks s) \<and> i < length es
           then (case tick (tasks s ! i) of
                   None \<Rightarrow> None
                 | Some k \<Rightarrow>
                     if \<not> stopped k \<and> next_tick k \<le> clock s
                     then Some (set_task i ((tasks s ! i)\<lparr>tick :=
                                  Some (k\<lparr>buffered := True, next_tick := next_tick k + Frequency (es ! i)\<rparr>)\<rparr>) s)
                     else None)
           else None)
      | Interrupt \<Rightarrow> (if cancelled s then None else Some (s\<lparr>cancelled := True\<rparr>))
      | Advance d \<Rightarrow> (if 0 < d then Some (s\<lparr>clock := clock s + d\<rparr>) else None)
      | Return \<Rightarrow>
          (if spawned s = length es \<and> list_all (\<lambda>t. gst t = G_Done) (tasks s)
           then Some (s\<lparr>returned := True, cancelled := True\<rparr>)
           else None)
      else None)"

text \<open>A run: the events of a schedule one after the other, from a state.\<close>

fun exec :: "'t env \<Rightarrow> 't Emitter list \<Rightarrow> event list \<Rightarrow> 't sched \<Rightarrow> 't sched option" where
  "exec E es [] s = Some s"
| "exec E es (ev # evs) s =
     (case sstep E es ev s of
        None \<Rightarrow> None
      | Some s1 \<Rightarrow> exec E es evs s1)"

section \<open>Observing a run\<close>

text \<open>Counting in a history: template parses, passes begun (each sets the locale first), records handed to a sink.\<close>

fun is_NewTpl :: "'t label \<Rightarrow> bool" where
  "is_NewTpl (L_NewTpl n s) = True"
| "is_NewTpl _ = False"

fun is_SetLocale :: "'t label \<Rightarrow> bool" where
  "is_SetLocale (L_SetLocale l) = True"
| "is_SetLocale _ = False"

fun is_Produce :: "'t label \<Rightarrow> bool" where
  "is_Produce (L_Produce p k v) = True"
| "is_Produce _ = False"

definition parses :: "'t label list \<Rightarrow> nat" where
  "parses ls = length (filter is_NewTpl ls)"

definition passes :: "'t label list \<Rightarrow> nat" where
  "passes ls = length (filter is_SetLocale ls)"

definition produced :: "'t label list \<Rightarrow> nat" where
  "produced ls = length (filter is_Produce ls)"

text \<open>The bytes of the values handed to the sinks, as an int64.\<close>

fun value_bytes :: "'t label list \<Rightarrow> 64 word" where
  "value_bytes [] = 0"
| "value_bytes (L_Produce p k v # ls) = of_nat (length v) + value_bytes ls"
| "value_bytes (l # ls) = value_bytes ls"

text \<open>
  What the passes of an emitter with producer \<open>p\<close> leave in a goroutine's history when it
  has no ticker: parses, log lines, the locale, and records handed to \<open>p\<close> and to no
  other sink.
\<close>

fun pass_label :: "'t Producer option \<Rightarrow> 't label \<Rightarrow> bool" where
  "pass_label p (L_NewTpl n s) = True"
| "pass_label p (L_Log m) = True"
| "pass_label p (L_SetLocale l) = True"
| "pass_label p (L_Produce q k v) = (p = Some q)"
| "pass_label p _ = False"






text \<open>A producer whose \<open>Close\<close> returns: the Redis client closes, or the other package's \<open>Close\<close> comes back.\<close>

definition closes_cleanly :: "'t env \<Rightarrow> 't Producer \<Rightarrow> bool" where
  "closes_cleanly E p =
     (case p of
        RedisProducer ttl client \<Rightarrow> redisClose E client = None
      | _ \<Rightarrow> sinkClose E p = None)"

text \<open>The emitters \<open>Initialize\<close> takes: all of them for an empty list of names, the named ones otherwise.\<close>

definition selected :: "string list \<Rightarrow> 't Emitter \<Rightarrow> bool" where
  "selected names e = (names = [] \<or> Name e \<in> set names)"

text \<open>The lines of the log.\<close>

fun is_Log :: "'t label \<Rightarrow> bool" where
  "is_Log (L_Log m) = True"
| "is_Log _ = False"


text \<open>What \<open>tpl.NewTpl\<close> and the \<open>log.Println\<close> of its error leave in the trace.\<close>

definition parse_log :: "'t env \<Rightarrow> string \<Rightarrow> string \<Rightarrow> 't label list" where
  "parse_log E name source =
     L_NewTpl name source # (case snd (NewTpl E name source) of None \<Rightarrow> [] | Some err \<Rightarrow> [L_Log err])"

section \<open>Example inputs\<close>

text \<open>
  A template engine whose templates render their own source, a Redis server whose client
  \<open>down\<close> fails to close, a file system that holds the Redis configuration only.
\<close>

definition demo_env :: "string env" where
  "demo_env =
     \<lparr>NewTpl = (\<lambda>name source. (source, None)),
      Execute = (\<lambda>t c. t),
      IndexOf = (\<lambda>a b. 0),
      ToUpper = (\<lambda>a. a),
      ExpandEnv = (\<lambda>a. a),
      ReadFile = (\<lambda>path. if path = ''redis.json'' then Inr ''down'' else Inl ''no such file''),
      jsonUnmarshal = (\<lambda>data. Inr data),
      redisSet = (\<lambda>client k v ttl. None),
      redisClose = (\<lambda>client. if client = ''down'' then Some ''connection refused'' else None),
      kafkaInitialize = (\<lambda>a. None),
      kafkaInitializeSchemaRegistry = (\<lambda>a. None),
      kafkaCreateTopic = (\<lambda>a. None),
      mongoInitialize = (\<lambda>a. None),
      sinkProduce = (\<lambda>p k v. None),
      sinkClose = (\<lambda>p. None)\<rparr>"

definition demo_conf :: GlobalConfiguration where
  "demo_conf =
     \<lparr>TemplateDir = ''templates'', SchemaRegistry = False, AutoCreate = False,
      Serializer = ''json-schema'', KafkaConfig = ''kafka.properties'',
      RegistryConfig = ''registry.properties'', RedisTtl = 60 * Second,
      RedisConfig = ''redis.json'', MongoConfig = ''mongo.json''\<rparr>"

definition demo_ctx :: JrContext where
  "demo_ctx = \<lparr>StartTime = 0, GeneratedObjects = 0, GeneratedBytes = 0, JrLocale = [], CountryIndex = 0\<rparr>"

definition demo_world :: "string world" where
  "demo_world = \<lparr>ctx = demo_ctx, trace = [], halted = None\<rparr>"

text \<open>An emitter that fires once, with a lifetime of five seconds and a value of ten bytes.\<close>

definition demo_once :: "string Emitter" where
  "demo_once =
     \<lparr>Name = ''once'', Locale = ''us'', Num = 1, Frequency = 0, Duration = 5 * Second, Preload = 0,
      ValueTemplate = ''user'', KeyTemplate = ''key'', OutputTemplate = ''out'',
      EmbeddedTemplate = ''0123456789'', Output = ''stdout'', Topic = ''test'', Kcat = False,
      Oneline = False, Producer = Some (KonsoleProducer ''out'')\<rparr>"

text \<open>An emitter that fires every second and has no lifetime set.\<close>

definition demo_periodic :: "string Emitter" where
  "demo_periodic = demo_once\<lparr>Name := ''periodic'', Frequency := Second, Duration := 0\<rparr>"

text \<open>An emitter that fires every second, with the lifetime of five seconds.\<close>

definition demo_ticking :: "string Emitter" where
  "demo_ticking = demo_once\<lparr>Name := ''ticking'', Frequency := Second\<rparr>"

text \<open>An emitter as the configuration gives it, before \<open>Initialize\<close>: no producer yet.\<close>

definition demo_fresh :: "string \<Rightarrow> string \<Rightarrow> string Emitter" where
  "demo_fresh name kind = demo_once\<lparr>Name := name, Output := kind, Producer := None\<rparr>"

text \<open>
  Two goroutines, each with one record to hand over. Either runs up to and including its
  read of a counter before the other writes it.
\<close>

definition up_to_produce :: "nat \<Rightarrow> event list" where
  "up_to_produce i = replicate 8 (Step i)"

definition race_objects :: "event list" where
  "race_objects =
     [Spawn, Spawn] @ up_to_produce 0 @ up_to_produce 1
     @ [Step 0, Step 1, Step 0, Step 1]
     @ replicate 3 (Step 0) @ replicate 3 (Step 1) @ [Return]"

definition race_bytes :: "event list" where
  "race_bytes =
     [Spawn, Spawn] @ up_to_produce 0 @ [Step 0, Step 0] @ up_to_produce 1 @ [Step 1, Step 1]
     @ [Step 0, Step 1, Step 0, Step 1]
     @ [Step 0, Step 1, Return]"


definition race_periodic :: "event list" where
  "race_periodic =
     [Spawn, Spawn, Step 0, Step 1, Advance Second, TickerFire 0, TickerFire 1, RecvTick 0, RecvTick 1]
     @ replicate 7 (Step 0) @ replicate 7 (Step 1)
     @ [Step 0, Step 1, Step 0, Step 1, Step 0, Step 1, Step 0, Step 1]
     @ [Step 0, Step 1, Interrupt, RecvIntr 0, RecvIntr 1, Return]"


text \<open>The same with the value template of \<open>demo_once\<close> in the template directory.\<close>

definition demo_files :: "string env" where
  "demo_files = demo_env\<lparr>ReadFile := (\<lambda>path. if path = ''templates/user.tpl'' then Inr ''0123456789''
                                             else ReadFile demo_env path)\<rparr>"

section \<open>Basic facts\<close>

lemma halted_emit [simp]: "halted (emit ls w) = halted w"
  and trace_emit [simp]: "trace (emit ls w) = trace w @ ls"
  and ctx_emit [simp]: "ctx (emit ls w) = ctx w"
  by (simp_all add: emit_def)

lemma halted_halt [simp]: "halted (halt f w) = Some f"
  and trace_halt [simp]: "trace (halt f w) = trace w"
  and ctx_halt [simp]: "ctx (halt f w) = ctx w"
  by (simp_all add: halt_def)

lemma halted_Fatalf [simp]: "halted (Fatalf msg w) = Some (Fatal msg)"
  and trace_Fatalf [simp]: "trace (Fatalf msg w) = trace w @ [L_Log msg]"
  and ctx_Fatalf [simp]: "ctx (Fatalf msg w) = ctx w"
  by (simp_all add: Fatalf_def)

lemma emit_Nil [simp]: "emit [] w = w"
  by (simp add: emit_def)

lemma emit_emit [simp]: "emit ys (emit xs w) = emit (xs @ ys) w"
  by (simp add: emit_def)

lemma parses_simps [simp]:
  "parses [] = 0"
  "parses (xs @ ys) = parses xs + parses ys"
  "parses (l # xs) = (if is_NewTpl l then Suc (parses xs) else parses xs)"
  by (simp_all add: parses_def)

lemma parses_Produce: "parses (trace (Produce E p k v w)) = parses (trace w)"
  by (simp add: Produce_def split: option.splits Producer.splits)

lemma parses_one_record: "parses (trace (one_record E p kt vt w)) = parses (trace w)"
  by (simp add: one_record_def Let_def parses_Produce)

lemma parses_record_loop: "parses (trace (record_loop E p kt vt n w)) = parses (trace w)"
  by (induction n arbitrary: w) (simp_all add: parses_one_record)

lemma parse_logged_parses:
  "parse_logged E name src w = (t, w1) \<Longrightarrow> parses (trace w1) = Suc (parses (trace w))"
  by (auto simp: parse_logged_def split: prod.splits option.splits)

lemma parse_logged_halted:
  "parse_logged E name src w = (t, w1) \<Longrightarrow> halted w1 = halted w"
  by (auto simp: parse_logged_def split: prod.splits option.splits)

subsection \<open>Closing the sinks, the report, Initialize\<close>

lemma Close_clean: "closes_cleanly E p \<Longrightarrow> Close E p w = emit [L_Close p] w"
  by (auto simp: closes_cleanly_def Close_def split: Producer.splits option.splits)

lemma CloseProducers_clean:
  "halted w = None \<Longrightarrow> list_all (closes_cleanly E) (List.map_filter Producer es) \<Longrightarrow>
   CloseProducers E es w = emit (map L_Close (List.map_filter Producer es)) w"
proof (induction es arbitrary: w)
  case Nil
  then show ?case by (simp add: List.map_filter_simps)
next
  case (Cons e es)
  show ?case
  proof (cases "Producer e")
    case None
    with Cons show ?thesis by (simp add: List.map_filter_simps)
  next
    case (Some p)
    with Cons.prems have c: "closes_cleanly E p" and r: "list_all (closes_cleanly E) (List.map_filter Producer es)"
      by (simp_all add: List.map_filter_simps)
    have "halted (emit [L_Close p] w) = None" using Cons.prems by simp
    from Cons.IH [OF this r] Some c Cons.prems show ?thesis
      by (simp add: List.map_filter_simps Close_clean)
  qed
qed

lemma CloseProducers_halted: "halted w \<noteq> None \<Longrightarrow> CloseProducers E es w = w"
  by (cases es) auto

lemma init_one_halted: "halted w \<noteq> None \<Longrightarrow> init_one E conf e w = (e, w)"
  by (auto simp: init_one_def Emitter_Initialize_def RunPreload_def)

lemma Contains_iff: "Contains names n \<longleftrightarrow> n \<in> set names"
  by (induction names) auto

lemma Initialize_Nil [simp]: "Initialize E conf names [] w = ([], w)"
  by (simp add: Initialize_def)

lemma Initialize_Cons:
  "Initialize E conf names (e # es) w =
     (let r = (if selected names e then init_one E conf e w else (e, w));
          q = Initialize E conf names es (snd r)
      in (fst r # fst q, snd q))"
  by (simp add: Initialize_def selected_def Contains_iff Let_def case_prod_beta)

lemma Initialize_length: "length (fst (Initialize E conf names es w)) = length es"
  by (induction es arbitrary: w) (simp_all add: Initialize_Cons Let_def)

lemma Initialize_nth:
  "i < length es \<Longrightarrow>
   fst (Initialize E conf names es w) ! i =
     (if selected names (es ! i)
      then fst (init_one E conf (es ! i) (snd (Initialize E conf names (take i es) w)))
      else es ! i)"
proof (induction es arbitrary: w i)
  case Nil
  then show ?case by simp
next
  case (Cons e es)
  show ?case
  proof (cases i)
    case 0
    then show ?thesis by (simp add: Initialize_Cons Let_def)
  next
    case (Suc j)
    with Cons.prems have j: "j < length es" by simp
    show ?thesis using Cons.IH [OF j] Suc
      by (simp add: Initialize_Cons Let_def)
  qed
qed

lemma Initialize_world:
  "snd (Initialize E conf names es w) =
     foldl (\<lambda>w e. snd (init_one E conf e w)) w (filter (selected names) es)"
  by (induction es arbitrary: w) (simp_all add: Initialize_Cons Let_def)

subsection \<open>The goroutine of an emitter that fires once\<close>

lemma passes_simps [simp]:
  "passes [] = 0"
  "passes (xs @ ys) = passes xs + passes ys"
  "passes (l # xs) = (if is_SetLocale l then Suc (passes xs) else passes xs)"
  by (simp_all add: passes_def)

lemma produced_simps [simp]:
  "produced [] = 0"
  "produced (xs @ ys) = produced xs + produced ys"
  "produced (l # xs) = (if is_Produce l then Suc (produced xs) else produced xs)"
  by (simp_all add: produced_def)


lemma set_task_simps [simp]:
  "tasks (set_task i t s) = (tasks s)[i := t]"
  "shared (set_task i t s) = shared s"
  "dead (set_task i t s) = dead s"
  "spawned (set_task i t s) = spawned s"
  "clock (set_task i t s) = clock s"
  "cancelled (set_task i t s) = cancelled s"
  "returned (set_task i t s) = returned s"
  by (simp_all add: set_task_def)





subsection \<open>Events and the goroutines they leave alone\<close>










lemma exec_append: "exec E es (xs @ ys) s = (case exec E es xs s of None \<Rightarrow> None | Some s1 \<Rightarrow> exec E es ys s1)"
  by (induction xs arbitrary: s) (auto split: option.splits)
















text \<open>\<open>DoLoop\<close> returns only when every goroutine has.\<close>







section \<open>Passes that do not overlap count every record\<close>

text \<open>
  Run by one thread, as \<open>RunPreload\<close> is and as a pass is when no other goroutine steps
  in between, the record loop adds one to \<open>GeneratedObjects\<close> for each record it hands
  over and the length of each value to \<open>GeneratedBytes\<close>.
\<close>

lemma value_bytes_append [simp]: "value_bytes (xs @ ys) = value_bytes xs + value_bytes ys"
  by (induction xs rule: value_bytes.induct) simp_all

lemma one_record_halted: "halted w \<noteq> None \<Longrightarrow> one_record E p kt vt w = w"
  by (simp add: one_record_def)

lemma record_loop_halted: "halted w \<noteq> None \<Longrightarrow> record_loop E p kt vt n w = w"
  by (induction n) (simp_all add: one_record_halted)

lemma Produce_ctx [simp]: "ctx (Produce E p k v w) = ctx w"
  by (simp add: Produce_def split: option.splits Producer.splits)

lemma Produce_counts:
  "halted (Produce E p k v w) = None \<Longrightarrow> halted w = None \<Longrightarrow>
   produced (trace (Produce E p k v w)) = Suc (produced (trace w))
   \<and> value_bytes (trace (Produce E p k v w)) = value_bytes (trace w) + of_nat (length v)"
  by (auto simp: Produce_def split: option.splits Producer.splits)

lemma one_record_counts:
  assumes "halted (one_record E p kt vt w) = None"
  shows "halted w = None
       \<and> GeneratedObjects (ctx (one_record E p kt vt w)) = GeneratedObjects (ctx w) + 1
       \<and> produced (trace (one_record E p kt vt w)) = Suc (produced (trace w))
       \<and> GeneratedBytes (ctx (one_record E p kt vt w))
           = GeneratedBytes (ctx w) + (value_bytes (trace (one_record E p kt vt w)) - value_bytes (trace w))"
proof -
  from assms have h: "halted w = None" by (auto simp: one_record_def split: if_splits)
  let ?w1 = "Produce E p (Execute E kt (ctx w)) (Execute E vt (ctx w)) w"
  from assms h have h1: "halted ?w1 = None"
    by (auto simp: one_record_def Let_def split: if_splits)
  from Produce_counts [OF h1 h] h h1 show ?thesis
    by (simp add: one_record_def Let_def)
qed

lemma record_loop_counts:
  "halted (record_loop E p kt vt n w) = None \<Longrightarrow>
   halted w = None
   \<and> GeneratedObjects (ctx (record_loop E p kt vt n w)) = GeneratedObjects (ctx w) + of_nat n
   \<and> produced (trace (record_loop E p kt vt n w)) = produced (trace w) + n
   \<and> GeneratedBytes (ctx (record_loop E p kt vt n w))
       = GeneratedBytes (ctx w) + (value_bytes (trace (record_loop E p kt vt n w)) - value_bytes (trace w))"
proof (induction n arbitrary: w)
  case 0
  then show ?case by simp
next
  case (Suc n)
  from Suc.prems have h: "halted (record_loop E p kt vt n (one_record E p kt vt w)) = None" by simp
  note IH = Suc.IH [OF h]
  from IH have "halted (one_record E p kt vt w) = None" by simp
  note R = one_record_counts [OF this]
  from IH R show ?case by (simp add: algebra_simps)
qed

lemma loop_head_Return: "nat (Num e) \<le> i \<Longrightarrow> loop_head e kt vt i = P_Return"
  by (simp add: loop_head_def)

lemma loop_head_ExecKey: "i < nat (Num e) \<Longrightarrow> loop_head e kt vt i = P_ExecKey kt vt i"
  by (simp add: loop_head_def)

lemma run_pass_Return [simp]: "run_pass E e n P_Return w = (P_Return, w)"
  by (cases n) simp_all

lemma run_pass_halted: "halted w \<noteq> None \<Longrightarrow> run_pass E e n pc w = (pc, w)"
  by (cases n) auto

lemma run_pass_loop:
  "halted w = None \<Longrightarrow> 7 * k \<le> fuel \<Longrightarrow> k = nat (Num e) - i \<Longrightarrow>
   snd (run_pass E e fuel (loop_head e kt vt i) w) = record_loop E (Producer e) kt vt k w"
proof (induction k arbitrary: w fuel i)
  case 0
  then show ?case by (simp add: loop_head_Return)
next
  case (Suc k)
  from Suc.prems(3) have i: "i < nat (Num e)" and k: "k = nat (Num e) - Suc i" by simp_all
  define f where "f = fuel - 7"
  from Suc.prems(2) have fuel: "fuel = Suc (Suc (Suc (Suc (Suc (Suc (Suc f))))))" and f: "7 * k \<le> f"
    unfolding f_def by arith+
  let ?w1 = "Produce E (Producer e) (Execute E kt (ctx w)) (Execute E vt (ctx w)) w"
  show ?case
  proof (cases "halted ?w1 = None")
    case False
    then obtain y where y: "halted ?w1 = Some y" by blast
    have "one_record E (Producer e) kt vt w = ?w1"
      using Suc.prems(1) y by (simp add: one_record_def Let_def)
    moreover have "record_loop E (Producer e) kt vt k ?w1 = ?w1"
      using y by (simp add: record_loop_halted)
    moreover have "run_pass E e fuel (loop_head e kt vt i) w
                     = (P_Produce kt vt i (Execute E kt (ctx w)) (Execute E vt (ctx w)), ?w1)"
      using Suc.prems(1) i y by (simp add: fuel loop_head_ExecKey Let_def)
    ultimately show ?thesis by simp
  next
    case True
    let ?w2 = "one_record E (Producer e) kt vt w"
    from True Suc.prems(1) have h2: "halted ?w2 = None" by (simp add: one_record_def Let_def)
    from Suc.IH [OF h2 f k]
    have IH: "snd (run_pass E e f (loop_head e kt vt (Suc i)) ?w2) = record_loop E (Producer e) kt vt k ?w2" .
    from True Suc.prems(1) i have "run_pass E e fuel (loop_head e kt vt i) w = run_pass E e f (loop_head e kt vt (Suc i)) ?w2"
      by (simp add: fuel loop_head_ExecKey Let_def one_record_def)
    with IH show ?thesis by simp
  qed
qed

text \<open>A pass that nothing interleaves with is \<open>doTemplate\<close>.\<close>

lemma run_pass_doTemplate:
  assumes "halted w = None"
  shows "snd (run_pass E e (7 * nat (Num e) + 4) P_SetLocale w) = doTemplate E e w"
proof -
  define W1 where "W1 = emit [L_SetLocale (Locale e)] (w\<lparr>ctx := (ctx w)\<lparr>JrLocale := Locale e\<rparr>\<rparr>)"
  define W2 where "W2 = W1\<lparr>ctx := (ctx W1)\<lparr>CountryIndex := IndexOf E (ToUpper E (Locale e)) ''country''\<rparr>\<rparr>"
  obtain kt W3 where p1: "parse_logged E ''key'' (KeyTemplate e) W2 = (kt, W3)"
    by (cases "parse_logged E ''key'' (KeyTemplate e) W2")
  obtain vt W4 where p2: "parse_logged E ''value'' (EmbeddedTemplate e) W3 = (vt, W4)"
    by (cases "parse_logged E ''value'' (EmbeddedTemplate e) W3")
  have h1: "halted W1 = None" using assms by (simp add: W1_def)
  have h2: "halted W2 = None" using h1 by (simp add: W2_def)
  from parse_logged_halted [OF p1] h2 have h3: "halted W3 = None" by simp
  from parse_logged_halted [OF p2] h3 have h4: "halted W4 = None" by simp
  have s1: "pass_step E e P_SetLocale w = (P_SetCountry, W1)" by (simp add: W1_def)
  have s2: "pass_step E e P_SetCountry W1 = (P_ParseKey, W2)" by (simp add: W2_def)
  have s3: "pass_step E e P_ParseKey W2 = (P_ParseValue kt, W3)" by (simp add: p1)
  have s4: "pass_step E e (P_ParseValue kt) W3 = (loop_head e kt vt 0, W4)" by (simp add: p2)
  have fuel: "7 * nat (Num e) + 4 = Suc (Suc (Suc (Suc (7 * nat (Num e)))))" by simp
  have "run_pass E e (7 * nat (Num e) + 4) P_SetLocale w
          = run_pass E e (7 * nat (Num e)) (loop_head e kt vt 0) W4"
    unfolding fuel by (simp add: s1 s2 s3 s4 assms h1 h2 h3 del: pass_step.simps)
  moreover from run_pass_loop [OF h4, where k = "nat (Num e)" and fuel = "7 * nat (Num e)" and e = e
                      and i = 0 and kt = kt and vt = vt and E = E]
  have "snd (run_pass E e (7 * nat (Num e)) (loop_head e kt vt 0) W4)
          = record_loop E (Producer e) kt vt (nat (Num e)) W4" by simp
  moreover have "W2 = emit [L_SetLocale (Locale e)] (w\<lparr>ctx := (ctx w)\<lparr>JrLocale := Locale e,
              CountryIndex := IndexOf E (ToUpper E (Locale e)) ''country''\<rparr>\<rparr>)"
    by (simp add: W1_def W2_def emit_def)
  then have "doTemplate E e w = record_loop E (Producer e) kt vt (nat (Num e)) W4"
    using assms p1 p2 by (simp add: doTemplate_def Let_def)
  ultimately show ?thesis by simp
qed

lemma doTemplate_counts:
  assumes "halted (doTemplate E e w) = None"
  shows "GeneratedObjects (ctx (doTemplate E e w)) = GeneratedObjects (ctx w) + of_nat (nat (Num e))
       \<and> produced (trace (doTemplate E e w)) = produced (trace w) + nat (Num e)
       \<and> GeneratedBytes (ctx (doTemplate E e w))
           = GeneratedBytes (ctx w) + (value_bytes (trace (doTemplate E e w)) - value_bytes (trace w))"
proof -
  from assms have h: "halted w = None" by (auto simp: doTemplate_def split: if_splits)
  define W2 where "W2 = emit [L_SetLocale (Locale e)] (w\<lparr>ctx := (ctx w)\<lparr>JrLocale := Locale e,
              CountryIndex := IndexOf E (ToUpper E (Locale e)) ''country''\<rparr>\<rparr>)"
  obtain kt W3 where p1: "parse_logged E ''key'' (KeyTemplate e) W2 = (kt, W3)"
    by (cases "parse_logged E ''key'' (KeyTemplate e) W2")
  obtain vt W4 where p2: "parse_logged E ''value'' (EmbeddedTemplate e) W3 = (vt, W4)"
    by (cases "parse_logged E ''value'' (EmbeddedTemplate e) W3")
  have d: "doTemplate E e w = record_loop E (Producer e) kt vt (nat (Num e)) W4"
    using h p1 p2 by (simp add: doTemplate_def Let_def W2_def [symmetric])
  have c4: "ctx W4 = ctx W3" "produced (trace W4) = produced (trace W3)" "value_bytes (trace W4) = value_bytes (trace W3)"
    using p2 by (auto simp: parse_logged_def split: prod.splits option.splits)
  have c3: "ctx W3 = ctx W2" "produced (trace W3) = produced (trace W2)" "value_bytes (trace W3) = value_bytes (trace W2)"
    using p1 by (auto simp: parse_logged_def split: prod.splits option.splits)
  have c2: "GeneratedObjects (ctx W2) = GeneratedObjects (ctx w)" "GeneratedBytes (ctx W2) = GeneratedBytes (ctx w)"
    "produced (trace W2) = produced (trace w)" "value_bytes (trace W2) = value_bytes (trace w)"
    by (simp_all add: W2_def)
  from assms have "halted (record_loop E (Producer e) kt vt (nat (Num e)) W4) = None" by (simp add: d)
  from record_loop_counts [OF this] show ?thesis
    unfolding d by (simp add: c2 c3 c4)
qed

lemma RunPreload_counts:
  assumes "halted (RunPreload E conf e w) = None"
  shows "GeneratedObjects (ctx (RunPreload E conf e w)) = GeneratedObjects (ctx w) + of_nat (nat (Preload e))
       \<and> produced (trace (RunPreload E conf e w)) = produced (trace w) + nat (Preload e)
       \<and> GeneratedBytes (ctx (RunPreload E conf e w))
           = GeneratedBytes (ctx w) + (value_bytes (trace (RunPreload E conf e w)) - value_bytes (trace w))"
proof -
  from assms have h: "halted w = None" by (auto simp: RunPreload_def split: if_splits)
  obtain kt W3 where p1: "parse_logged E ''key'' (KeyTemplate e) w = (kt, W3)"
    by (cases "parse_logged E ''key'' (KeyTemplate e) w")
  obtain vt W4 where p2: "parse_logged E ''value''
        (case ReadFile E (ExpandEnv E (TemplateDir conf) @ ''/'' @ ValueTemplate e @ ''.tpl'')
         of Inl err \<Rightarrow> [] | Inr d \<Rightarrow> d) W3 = (vt, W4)"
    by (cases "parse_logged E ''value''
        (case ReadFile E (ExpandEnv E (TemplateDir conf) @ ''/'' @ ValueTemplate e @ ''.tpl'')
         of Inl err \<Rightarrow> [] | Inr d \<Rightarrow> d) W3")
  have d: "RunPreload E conf e w = record_loop E (Producer e) kt vt (nat (Preload e)) W4"
    using h p1 p2 by (simp add: RunPreload_def Let_def)
  have c4: "ctx W4 = ctx W3" "produced (trace W4) = produced (trace W3)" "value_bytes (trace W4) = value_bytes (trace W3)"
    using p2 by (auto simp: parse_logged_def split: prod.splits option.splits)
  have c3: "ctx W3 = ctx w" "produced (trace W3) = produced (trace w)" "value_bytes (trace W3) = value_bytes (trace w)"
    using p1 by (auto simp: parse_logged_def split: prod.splits option.splits)
  from assms have "halted (record_loop E (Producer e) kt vt (nat (Preload e)) W4) = None" by (simp add: d)
  from record_loop_counts [OF this] show ?thesis
    unfolding d by (simp add: c3 c4)
qed

section \<open>Where templates are parsed\<close>

lemma parse_logged_eq:
  "parse_logged E name source w = (fst (NewTpl E name source), emit (parse_log E name source) w)"
  by (cases "NewTpl E name source") (auto simp: parse_logged_def parse_log_def split: option.splits)

lemma filter_NewTpl_parse_log [simp]:
  "filter is_NewTpl (parse_log E name source) = [L_NewTpl name source]"
  by (simp add: parse_log_def split: option.splits)

lemma NewTpl_Produce: "filter is_NewTpl (trace (Produce E p k v w)) = filter is_NewTpl (trace w)"
  by (simp add: Produce_def split: option.splits Producer.splits)

lemma NewTpl_one_record: "filter is_NewTpl (trace (one_record E p kt vt w)) = filter is_NewTpl (trace w)"
  by (simp add: one_record_def Let_def NewTpl_Produce)

lemma NewTpl_record_loop: "filter is_NewTpl (trace (record_loop E p kt vt n w)) = filter is_NewTpl (trace w)"
  by (induction n arbitrary: w) (simp_all add: NewTpl_one_record)



lemma snd_set_Producer [simp]: "snd (set_Producer e r) = snd r"
  by (cases r) (simp add: set_Producer_def split: option.splits)


section \<open>The first sink that fails to close\<close>

lemma Close_unclean:
  "\<not> closes_cleanly E p \<Longrightarrow>
   halted (Close E p w) \<noteq> None \<and> ctx (Close E p w) = ctx w
   \<and> (\<exists>ls. trace (Close E p w) = trace w @ ls \<and> list_all is_Log ls)"
  by (auto simp: closes_cleanly_def Close_def split: Producer.splits option.splits)

lemma CloseProducers_first_failure:
  "halted w = None \<Longrightarrow> List.map_filter Producer es = before @ p # after \<Longrightarrow>
   list_all (closes_cleanly E) before \<Longrightarrow> \<not> closes_cleanly E p \<Longrightarrow>
   CloseProducers E es w = Close E p (emit (map L_Close before) w)"
proof (induction es arbitrary: w before)
  case Nil
  then show ?case by (simp add: List.map_filter_simps)
next
  case (Cons e es)
  show ?case
  proof (cases "Producer e")
    case None
    with Cons.prems have "List.map_filter Producer es = before @ p # after"
      by (simp add: List.map_filter_simps)
    from Cons.IH [OF Cons.prems(1) this Cons.prems(3,4)] None Cons.prems(1) show ?thesis by simp
  next
    case (Some q)
    with Cons.prems(2) have mf: "q # List.map_filter Producer es = before @ p # after"
      by (simp add: List.map_filter_simps)
    show ?thesis
    proof (cases before)
      case Nil
      with mf have q: "q = p" by simp
      from Close_unclean [OF Cons.prems(4), of w] have "halted (Close E p w) \<noteq> None" by simp
      then have "CloseProducers E es (Close E p w) = Close E p w" by (rule CloseProducers_halted)
      with Some q Nil Cons.prems(1) show ?thesis by simp
    next
      case (Cons b bs)
      with mf have q: "q = b" and rest: "List.map_filter Producer es = bs @ p # after" by simp_all
      from Cons Cons.prems(3) have cb: "closes_cleanly E b" and cbs: "list_all (closes_cleanly E) bs"
        by simp_all
      have h: "halted (emit [L_Close b] w) = None" using Cons.prems(1) by simp
      from Cons.IH [OF h rest cbs Cons.prems(4)]
      have "CloseProducers E es (emit [L_Close b] w) = Close E p (emit (map L_Close bs) (emit [L_Close b] w))" .
      with Some q Cons Cons.prems(1) cb show ?thesis
        by (simp add: Close_clean)
    qed
  qed
qed

section \<open>Rounding to whole seconds\<close>

lemma half_up_div:
  fixes a :: int
  assumes "0 \<le> a"
  shows "(a + 500000000) div 1000000000
           = a div 1000000000 + (if a mod 1000000000 + a mod 1000000000 < 1000000000 then 0 else 1)"
proof -
  define q where "q = a div 1000000000"
  define r where "r = a mod 1000000000"
  have a: "a = q * 1000000000 + r" by (simp add: q_def r_def)
  have rb: "0 \<le> r" "r < 1000000000" by (simp_all add: r_def)
  have "(a + 500000000) div 1000000000 = q + (r + 500000000) div 1000000000"
    unfolding a by (simp add: add.assoc)
  moreover have "(r + 500000000) div 1000000000 = (if r + r < 1000000000 then 0 else 1)"
  proof (cases "r + r < 1000000000")
    case True
    with rb have "(r + 500000000) div 1000000000 = 0" by (intro div_pos_pos_trivial) simp_all
    with True show ?thesis by simp
  next
    case False
    with rb have "r + 500000000 = 1 * 1000000000 + (r - 500000000)" "0 \<le> r - 500000000" "r - 500000000 < 1000000000"
      by simp_all
    then have "(r + 500000000) div 1000000000 = 1"
      by (metis div_pos_pos_trivial div_mult_self4 add.commute mult.commute add.right_neutral zero_neq_numeral)
    with False show ?thesis by simp
  qed
  ultimately show ?thesis by (simp add: q_def r_def)
qed

lemma Round_Second_exact:
  assumes "minDuration \<le> d" "d \<le> maxDuration"
  shows "Round d Second =
           (if sgn d * (Second * ((\<bar>d\<bar> + Second div 2) div Second)) > maxDuration then maxDuration
            else if sgn d * (Second * ((\<bar>d\<bar> + Second div 2) div Second)) < minDuration then minDuration
            else sgn d * (Second * ((\<bar>d\<bar> + Second div 2) div Second)))"
proof (cases "d < 0")
  case True
  define a where "a = - d"
  have a0: "0 < a" and d: "d = - a" using True by (simp_all add: a_def)
  define r where "r = a mod 1000000000"
  have g: "go_rem d Second = - r"
    using a0 by (simp add: go_rem_def Second_def sgn_if r_def d)
  have m: "a = a div 1000000000 * 1000000000 + r" by (simp add: r_def)
  have rb: "0 \<le> r" "r < 1000000000" by (simp_all add: r_def)
  have h: "(a + 500000000) div 1000000000
           = a div 1000000000 + (if r + r < 1000000000 then 0 else 1)"
    using half_up_div [of a] a0 by (simp add: r_def)
  have mm: "1000000000 * (a div 1000000000) = a - r" using m by simp
  show ?thesis using a0 rb assms
    unfolding Round_def g Let_def
    by (simp add: Second_def minDuration_def maxDuration_def d h sgn_if algebra_simps mm)
next
  case False
  define r where "r = d mod 1000000000"
  have g: "go_rem d Second = r"
    using False by (simp add: go_rem_def Second_def sgn_if r_def)
  have rb: "0 \<le> r" "r < 1000000000" by (simp_all add: r_def)
  have h: "(d + 500000000) div 1000000000
           = d div 1000000000 + (if r + r < 1000000000 then 0 else 1)"
    using half_up_div [of d] False by (simp add: r_def)
  have m: "d = d div 1000000000 * 1000000000 + r" by (simp add: r_def)
  have mm: "1000000000 * (d div 1000000000) = d - r" using m by simp
  show ?thesis
  proof (cases "d = 0")
    case True
    then show ?thesis
      by (simp add: Round_def go_rem_def Second_def minDuration_def maxDuration_def)
  next
    case nz: False
    with False have "0 < d" by simp
    then show ?thesis using rb assms
      unfolding Round_def g Let_def
      by (simp add: Second_def minDuration_def maxDuration_def h sgn_if algebra_simps mm)
  qed
qed


lemma Since_range: "minDuration \<le> Since now t \<and> Since now t \<le> maxDuration"
  by (simp add: Since_def minDuration_def maxDuration_def)

section \<open>What Initialize leaves behind\<close>

lemma Produce_suffix:
  "\<exists>ls. trace (Produce E p k v w) = trace w @ ls \<and> list_all (pass_label p) ls"
  by (auto simp: Produce_def split: option.splits Producer.splits)

lemma one_record_suffix:
  "\<exists>ls. trace (one_record E p kt vt w) = trace w @ ls \<and> list_all (pass_label p) ls"
proof -
  obtain ls where "trace (Produce E p (Execute E kt (ctx w)) (Execute E vt (ctx w)) w) = trace w @ ls"
    and "list_all (pass_label p) ls"
    using Produce_suffix [of E p "Execute E kt (ctx w)" "Execute E vt (ctx w)" w] by blast
  then show ?thesis by (auto simp: one_record_def Let_def)
qed

lemma record_loop_suffix:
  "\<exists>ls. trace (record_loop E p kt vt n w) = trace w @ ls \<and> list_all (pass_label p) ls"
proof (induction n arbitrary: w)
  case 0
  then show ?case by simp
next
  case (Suc n)
  obtain l1 where 1: "trace (one_record E p kt vt w) = trace w @ l1" "list_all (pass_label p) l1"
    using one_record_suffix [of E p kt vt w] by blast
  obtain l2 where 2: "trace (record_loop E p kt vt n (one_record E p kt vt w)) = trace (one_record E p kt vt w) @ l2"
    "list_all (pass_label p) l2"
    using Suc.IH [of "one_record E p kt vt w"] by blast
  from 1 2 have "trace (record_loop E p kt vt (Suc n) w) = trace w @ (l1 @ l2) \<and> list_all (pass_label p) (l1 @ l2)"
    by simp
  then show ?case by blast
qed

lemma parse_log_counts [simp]:
  "produced (parse_log E name source) = 0"
  "value_bytes (parse_log E name source) = 0"
  by (simp_all add: parse_log_def split: option.splits)

lemma RunPreload_effect:
  assumes "halted (RunPreload E conf e w) = None"
  shows "\<exists>ls. trace (RunPreload E conf e w) = trace w @ ls
            \<and> produced ls = nat (Preload e)
            \<and> list_all (pass_label (Producer e)) ls
            \<and> GeneratedBytes (ctx (RunPreload E conf e w)) = GeneratedBytes (ctx w) + value_bytes ls
            \<and> filter is_NewTpl ls =
                 [L_NewTpl ''key'' (KeyTemplate e),
                  L_NewTpl ''value''
                    (case ReadFile E (ExpandEnv E (TemplateDir conf) @ ''/'' @ ValueTemplate e @ ''.tpl'')
                     of Inl err \<Rightarrow> [] | Inr d \<Rightarrow> d)]"
proof -
  from assms have h: "halted w = None" by (auto simp: RunPreload_def split: if_splits)
  let ?src = "case ReadFile E (ExpandEnv E (TemplateDir conf) @ ''/'' @ ValueTemplate e @ ''.tpl'')
                     of Inl err \<Rightarrow> [] | Inr d \<Rightarrow> d"
  let ?pl = "parse_log E ''key'' (KeyTemplate e) @ parse_log E ''value'' ?src"
  let ?w2 = "emit ?pl w"
  have d: "RunPreload E conf e w =
             record_loop E (Producer e) (fst (NewTpl E ''key'' (KeyTemplate e)))
               (fst (NewTpl E ''value'' ?src)) (nat (Preload e)) ?w2"
    using h by (simp add: RunPreload_def Let_def parse_logged_eq)
  obtain ls where ls: "trace (RunPreload E conf e w) = trace ?w2 @ ls" "list_all (pass_label (Producer e)) ls"
    unfolding d
    using record_loop_suffix [of E "Producer e" "fst (NewTpl E ''key'' (KeyTemplate e))"
            "fst (NewTpl E ''value'' ?src)" "nat (Preload e)" ?w2] by blast
  from RunPreload_counts [OF assms] ls
  have pr: "produced (?pl @ ls) = nat (Preload e)"
    and gb: "GeneratedBytes (ctx (RunPreload E conf e w)) = GeneratedBytes (ctx w) + value_bytes (?pl @ ls)"
    by simp_all
  have p0: "list_all (pass_label (Producer e)) ?pl"
    by (simp add: parse_log_def split: option.splits)
  have nt: "filter is_NewTpl (?pl @ ls) = [L_NewTpl ''key'' (KeyTemplate e), L_NewTpl ''value'' ?src]"
  proof -
    have "filter is_NewTpl (trace (RunPreload E conf e w)) = filter is_NewTpl (trace ?w2)"
      unfolding d by (rule NewTpl_record_loop)
    with ls(1) have "filter is_NewTpl ls = []" by simp
    then show ?thesis by simp
  qed
  from ls pr gb nt p0
  have "trace (RunPreload E conf e w) = trace w @ (?pl @ ls)
            \<and> produced (?pl @ ls) = nat (Preload e)
            \<and> list_all (pass_label (Producer e)) (?pl @ ls)
            \<and> GeneratedBytes (ctx (RunPreload E conf e w)) = GeneratedBytes (ctx w) + value_bytes (?pl @ ls)
            \<and> filter is_NewTpl (?pl @ ls) = [L_NewTpl ''key'' (KeyTemplate e), L_NewTpl ''value'' ?src]"
    by simp
  then show ?thesis by blast
qed


lemma create_ctx:
  "ctx (snd (createKafkaProducer E conf t tt w)) = ctx w"
  "ctx (snd (createRedisProducer E ttl c w)) = ctx w"
  "ctx (snd (createMongoProducer E m w)) = ctx w"
  by (simp_all add: createKafkaProducer_def createRedisProducer_def createMongoProducer_def
        split: option.splits sum.splits)

text \<open>What \<open>Emitter.Initialize\<close> has done when it comes back.\<close>

lemma Emitter_Initialize_effect:
  assumes "halted (snd (Emitter_Initialize E conf e w)) = None"
  shows "halted w = None
       \<and> ctx (snd (Emitter_Initialize E conf e w)) = ctx w
       \<and> (\<exists>ls. trace (snd (Emitter_Initialize E conf e w)) = trace w @ L_NewTpl ''out'' (OutputTemplate e) # ls
                \<and> list_all is_Log ls)
       \<and> fst (Emitter_Initialize E conf e w) = e\<lparr>Producer := Producer (fst (Emitter_Initialize E conf e w))\<rparr>
       \<and> (if Output e = ''stdout''
           then Producer (fst (Emitter_Initialize E conf e w))
                  = Some (KonsoleProducer (fst (NewTpl E ''out'' (OutputTemplate e))))
           else if Output e = ''kafka''
           then Producer (fst (Emitter_Initialize E conf e w))
                  = Some (KafkaManager (Serializer conf) (Topic e) (ValueTemplate e))
           else if Output e = ''redis''
           then (\<exists>data options. ReadFile E (RedisConfig conf) = Inr data \<and> jsonUnmarshal E data = Inr options
                  \<and> Producer (fst (Emitter_Initialize E conf e w))
                       = Some (RedisProducer (RedisTtl conf) options))
           else if Output e = ''mongo'' \<or> Output e = ''mongodb''
           then Producer (fst (Emitter_Initialize E conf e w)) = Some (MongoProducer (MongoConfig conf))
           else Producer (fst (Emitter_Initialize E conf e w)) = Producer e)"
proof -
  from assms have h: "halted w = None"
    by (auto simp: Emitter_Initialize_def split: if_splits)
  show ?thesis
  proof (cases "Output e = ''stdout''")
    case True
    with h show ?thesis by (simp add: Emitter_Initialize_def Let_def)
  next
    case ns: False
    show ?thesis
    proof (cases "Output e = ''kafka''")
      case True
      with ns h assms show ?thesis
        by (auto simp: Emitter_Initialize_def Let_def set_Producer_def createKafkaProducer_def
              split: option.splits if_splits)
    next
      case nk: False
      show ?thesis
      proof (cases "Output e = ''redis''")
        case True
        with ns nk h assms show ?thesis
          by (auto simp: Emitter_Initialize_def Let_def set_Producer_def createRedisProducer_def
                split: option.splits sum.splits if_splits)
      next
        case nr: False
        show ?thesis
        proof (cases "Output e = ''mongo'' \<or> Output e = ''mongodb''")
          case True
          with ns nk nr h assms show ?thesis
            by (auto simp: Emitter_Initialize_def Let_def set_Producer_def createMongoProducer_def
                  split: option.splits if_splits)
        next
          case False
          with ns nk nr h assms show ?thesis
            by (auto simp: Emitter_Initialize_def Let_def split: if_splits)
        qed
      qed
    qed
  qed
qed


lemma Log_labels:
  assumes "list_all is_Log ls"
  shows "list_all (pass_label p) ls" "produced ls = 0" "value_bytes ls = 0" "filter is_NewTpl ls = []"
proof -
  have "list_all is_Log ls \<Longrightarrow> list_all (pass_label p) ls \<and> produced ls = 0 \<and> value_bytes ls = 0 \<and> filter is_NewTpl ls = []"
  proof (induction ls)
    case Nil
    then show ?case by (simp add: produced_def)
  next
    case (Cons l ls)
    then show ?case by (cases l) (simp_all add: produced_def)
  qed
  with assms show "list_all (pass_label p) ls" "produced ls = 0" "value_bytes ls = 0" "filter is_NewTpl ls = []"
    by simp_all
qed

text \<open>One emitter's turn, when it comes back.\<close>

lemma init_one_effect:
  assumes "halted (snd (init_one E conf e w)) = None"
  shows "(\<exists>ls. trace (snd (init_one E conf e w)) = trace w @ L_NewTpl ''out'' (OutputTemplate e) # ls
            \<and> filter is_NewTpl ls =
                 [L_NewTpl ''key'' (KeyTemplate e),
                  L_NewTpl ''value''
                    (case ReadFile E (ExpandEnv E (TemplateDir conf) @ ''/'' @ ValueTemplate e @ ''.tpl'')
                     of Inl err \<Rightarrow> [] | Inr d \<Rightarrow> d)]
            \<and> produced ls = nat (Preload e)
            \<and> list_all (pass_label (Producer (fst (init_one E conf e w)))) ls
            \<and> GeneratedBytes (ctx (snd (init_one E conf e w))) = GeneratedBytes (ctx w) + value_bytes ls)
       \<and> GeneratedObjects (ctx (snd (init_one E conf e w))) = GeneratedObjects (ctx w) + of_nat (nat (Preload e))
       \<and> produced (trace (snd (init_one E conf e w))) = produced (trace w) + nat (Preload e)
       \<and> fst (init_one E conf e w) = e\<lparr>Producer := Producer (fst (init_one E conf e w))\<rparr>"
proof -
  define e1 where "e1 = fst (Emitter_Initialize E conf e w)"
  define w1 where "w1 = snd (Emitter_Initialize E conf e w)"
  have io: "init_one E conf e w = (e1, RunPreload E conf e1 w1)"
    by (simp add: init_one_def e1_def w1_def case_prod_beta)
  from assms io have hp: "halted (RunPreload E conf e1 w1) = None" by simp
  then have h1: "halted w1 = None" by (auto simp: RunPreload_def split: if_splits)
  from Emitter_Initialize_effect [of E conf e w] h1
  obtain l0 where c1: "ctx w1 = ctx w"
    and t1: "trace w1 = trace w @ L_NewTpl ''out'' (OutputTemplate e) # l0"
    and l0: "list_all is_Log l0"
    and e1: "e1 = e\<lparr>Producer := Producer e1\<rparr>"
    unfolding e1_def w1_def by blast
  have f: "KeyTemplate e1 = KeyTemplate e" "ValueTemplate e1 = ValueTemplate e" "Preload e1 = Preload e"
    by (subst e1, simp)+
  from RunPreload_effect [OF hp]
  obtain l1 where t2: "trace (RunPreload E conf e1 w1) = trace w1 @ l1"
    and p1: "produced l1 = nat (Preload e)"
    and a1: "list_all (pass_label (Producer e1)) l1"
    and g1: "GeneratedBytes (ctx (RunPreload E conf e1 w1)) = GeneratedBytes (ctx w1) + value_bytes l1"
    and n1: "filter is_NewTpl l1 =
                 [L_NewTpl ''key'' (KeyTemplate e),
                  L_NewTpl ''value''
                    (case ReadFile E (ExpandEnv E (TemplateDir conf) @ ''/'' @ ValueTemplate e @ ''.tpl'')
                     of Inl err \<Rightarrow> [] | Inr d \<Rightarrow> d)]"
    unfolding f by blast
  from RunPreload_counts [OF hp]
  have o1: "GeneratedObjects (ctx (RunPreload E conf e1 w1)) = GeneratedObjects (ctx w) + of_nat (nat (Preload e))"
    and q1: "produced (trace (RunPreload E conf e1 w1)) = produced (trace w1) + nat (Preload e)"
    by (simp_all add: f c1)
  have pw1: "produced (trace w1) = produced (trace w)"
    using Log_labels(2) [OF l0] by (simp add: t1 produced_def)
  have "trace (snd (init_one E conf e w)) = trace w @ L_NewTpl ''out'' (OutputTemplate e) # (l0 @ l1)
            \<and> filter is_NewTpl (l0 @ l1) =
                 [L_NewTpl ''key'' (KeyTemplate e),
                  L_NewTpl ''value''
                    (case ReadFile E (ExpandEnv E (TemplateDir conf) @ ''/'' @ ValueTemplate e @ ''.tpl'')
                     of Inl err \<Rightarrow> [] | Inr d \<Rightarrow> d)]
            \<and> produced (l0 @ l1) = nat (Preload e)
            \<and> list_all (pass_label (Producer (fst (init_one E conf e w)))) (l0 @ l1)
            \<and> GeneratedBytes (ctx (snd (init_one E conf e w))) = GeneratedBytes (ctx w) + value_bytes (l0 @ l1)"
    using t1 t2 p1 a1 g1 n1 c1 Log_labels(1) [OF l0, of "Producer e1"] Log_labels(2-4) [OF l0]
    by (simp add: io produced_def value_bytes_append)
  then have ex: "\<exists>ls. trace (snd (init_one E conf e w)) = trace w @ L_NewTpl ''out'' (OutputTemplate e) # ls
            \<and> filter is_NewTpl ls =
                 [L_NewTpl ''key'' (KeyTemplate e),
                  L_NewTpl ''value''
                    (case ReadFile E (ExpandEnv E (TemplateDir conf) @ ''/'' @ ValueTemplate e @ ''.tpl'')
                     of Inl err \<Rightarrow> [] | Inr d \<Rightarrow> d)]
            \<and> produced ls = nat (Preload e)
            \<and> list_all (pass_label (Producer (fst (init_one E conf e w)))) ls
            \<and> GeneratedBytes (ctx (snd (init_one E conf e w))) = GeneratedBytes (ctx w) + value_bytes ls"
    by blast
  have fe: "fst (init_one E conf e w) = e\<lparr>Producer := Producer (fst (init_one E conf e w))\<rparr>"
    unfolding io fst_conv by (rule e1)
  have oq: "GeneratedObjects (ctx (snd (init_one E conf e w))) = GeneratedObjects (ctx w) + of_nat (nat (Preload e))"
    "produced (trace (snd (init_one E conf e w))) = produced (trace w) + nat (Preload e)"
    using o1 q1 pw1 by (simp_all add: io)
  show ?thesis by (intro conjI) (rule ex oq fe)+
qed

lemma init_one_alive: "halted (snd (init_one E conf e w)) = None \<Longrightarrow> halted w = None"
  using init_one_halted [of w E conf e] by (cases "halted w") simp_all

lemma Initialize_halted: "halted w \<noteq> None \<Longrightarrow> Initialize E conf names es w = (es, w)"
  by (induction es) (simp_all add: Initialize_Cons Let_def init_one_halted)

lemma Initialize_alive: "halted (snd (Initialize E conf names es w)) = None \<Longrightarrow> halted w = None"
  using Initialize_halted [of w E conf names es] by (cases "halted w") simp_all

lemma Initialize_append:
  "Initialize E conf names (xs @ ys) w =
     (fst (Initialize E conf names xs w) @ fst (Initialize E conf names ys (snd (Initialize E conf names xs w))),
      snd (Initialize E conf names ys (snd (Initialize E conf names xs w))))"
  by (induction xs arbitrary: w) (simp_all add: Initialize_Cons Let_def)

lemma Initialize_prefix_alive:
  assumes "halted (snd (Initialize E conf names es w)) = None"
  shows "halted (snd (Initialize E conf names (take i es) w)) = None"
proof -
  have "Initialize E conf names es w = Initialize E conf names (take i es @ drop i es) w" by simp
  also note Initialize_append
  finally have "snd (Initialize E conf names es w) =
     snd (Initialize E conf names (drop i es) (snd (Initialize E conf names (take i es) w)))"
    by simp
  with assms Initialize_alive show ?thesis by metis
qed

lemma Initialize_step:
  assumes "i < length es"
  shows "snd (Initialize E conf names (take (Suc i) es) w) =
           (if selected names (es ! i)
            then snd (init_one E conf (es ! i) (snd (Initialize E conf names (take i es) w)))
            else snd (Initialize E conf names (take i es) w))"
proof -
  from assms have "take (Suc i) es = take i es @ [es ! i]" by (simp add: take_Suc_conv_app_nth)
  then show ?thesis by (simp add: Initialize_append Initialize_Cons Let_def)
qed

lemma Initialize_totals:
  "halted (snd (Initialize E conf names es w)) = None \<Longrightarrow>
   produced (trace (snd (Initialize E conf names es w)))
     = produced (trace w) + sum_list (map (\<lambda>e. nat (Preload e)) (filter (selected names) es))
   \<and> GeneratedObjects (ctx (snd (Initialize E conf names es w)))
     = GeneratedObjects (ctx w) + of_nat (sum_list (map (\<lambda>e. nat (Preload e)) (filter (selected names) es)))"
proof (induction es arbitrary: w)
  case Nil
  then show ?case by simp
next
  case (Cons e es)
  define r where "r = (if selected names e then init_one E conf e w else (e, w))"
  have sn: "snd (Initialize E conf names (e # es) w) = snd (Initialize E conf names es (snd r))"
    by (simp add: Initialize_Cons Let_def r_def)
  with Cons.prems have h: "halted (snd (Initialize E conf names es (snd r))) = None" by simp
  then have hr: "halted (snd r) = None" by (rule Initialize_alive)
  have one: "produced (trace (snd r)) = produced (trace w) + (if selected names e then nat (Preload e) else 0)
           \<and> GeneratedObjects (ctx (snd r)) = GeneratedObjects (ctx w) + of_nat (if selected names e then nat (Preload e) else 0)"
  proof (cases "selected names e")
    case True
    with hr have "halted (snd (init_one E conf e w)) = None" by (simp add: r_def)
    from init_one_effect [OF this] True show ?thesis by (simp add: r_def)
  next
    case False
    then show ?thesis by (simp add: r_def)
  qed
  from Cons.IH [OF h] one show ?case unfolding sn by simp
qed

lemma init_one_Producer:
  assumes "halted (snd (init_one E conf e w)) = None"
  shows "if Output e = ''stdout''
         then Producer (fst (init_one E conf e w))
                = Some (KonsoleProducer (fst (NewTpl E ''out'' (OutputTemplate e))))
         else if Output e = ''kafka''
         then Producer (fst (init_one E conf e w))
                = Some (KafkaManager (Serializer conf) (Topic e) (ValueTemplate e))
         else if Output e = ''redis''
         then (\<exists>data options. ReadFile E (RedisConfig conf) = Inr data \<and> jsonUnmarshal E data = Inr options
                \<and> Producer (fst (init_one E conf e w)) = Some (RedisProducer (RedisTtl conf) options))
         else if Output e = ''mongo'' \<or> Output e = ''mongodb''
         then Producer (fst (init_one E conf e w)) = Some (MongoProducer (MongoConfig conf))
         else Producer (fst (init_one E conf e w)) = Producer e"
proof -
  have io: "init_one E conf e w =
      (fst (Emitter_Initialize E conf e w),
       RunPreload E conf (fst (Emitter_Initialize E conf e w)) (snd (Emitter_Initialize E conf e w)))"
    by (simp add: init_one_def case_prod_beta)
  with assms have "halted (RunPreload E conf (fst (Emitter_Initialize E conf e w)) (snd (Emitter_Initialize E conf e w))) = None"
    by simp
  then have "halted (snd (Emitter_Initialize E conf e w)) = None"
    by (auto simp: RunPreload_def split: if_splits)
  from Emitter_Initialize_effect [OF this] show ?thesis
    unfolding io fst_conv by blast
qed

section \<open>The claims\<close>



text \<open>
  Claim C2. For an emitter whose \<open>Duration\<close> is zero no stop deadline is armed or fires:
  no deadline stops the task, it runs until the interrupt.

  \<open>DoLoop\<close> arms \<open>time.AfterFunc(es[index].Duration, ...)\<close> for every emitter, with no test
  of the duration, and a duration of zero has elapsed at once. For the periodic emitter
  with \<open>Duration = 0\<close>: the loop starts the goroutine, the goroutine makes its ticker and
  blocks in the \<open>select\<close>, the deadline fires at time 0, the \<open>select\<close> takes the stop
  signal. The goroutine has returned with no pass run, no time passed and no interrupt.
\<close>

theorem zero_lifetime_deadline_stops_task:
  "Duration demo_periodic = 0
   \<and> 0 < Frequency demo_periodic
   \<and> map_option
        (\<lambda>s. (gst (tasks s ! 0), deadline (tasks s ! 0), passes (did (tasks s ! 0)), cancelled s, clock s))
        (exec demo_env [demo_periodic] [Spawn, Step 0, Fire 0, RecvStop 0] (DoLoop_init demo_ctx 1))
      = Some (G_Done, T_Sent, 0, False, 0)"
  by code_simp

text \<open>
  Claim C3. After any run, \<open>GeneratedObjects\<close> is the sum over all tasks of the preload
  count plus \<open>Num\<close> times the passes run: every record increments the counter exactly once.

  Two emitters, each firing once with one record. Both goroutines read the counter before
  either writes it back. \<open>DoLoop\<close> returns with two records handed to the sinks and
  \<open>GeneratedObjects = 1\<close>.
\<close>

theorem lost_generated_object:
  "map_option
     (\<lambda>s. (returned s, map (\<lambda>t. (passes (did t), produced (did t))) (tasks s), GeneratedObjects (shared s)))
     (exec demo_env [demo_once, demo_once] race_objects (DoLoop_init demo_ctx 2))
   = Some (True, [(1, 1), (1, 1)], 1)"
  by code_simp

text \<open>
  Claim C4. After any run, \<open>GeneratedBytes\<close> is the sum of the byte lengths of every value
  emitted, over all tasks, preload and scheduled passes; key bytes are not counted.

  The same two emitters, each value ten bytes long. Both goroutines read \<open>GeneratedBytes\<close>
  before either writes it back. \<open>DoLoop\<close> returns with twenty bytes of values handed to the
  sinks and \<open>GeneratedBytes = 10\<close>.
\<close>

theorem lost_generated_bytes:
  "map_option
     (\<lambda>s. (returned s, map (\<lambda>t. value_bytes (did t)) (tasks s), GeneratedBytes (shared s)))
     (exec demo_env [demo_once, demo_once] race_bytes (DoLoop_init demo_ctx 2))
   = Some (True, [10, 10], 10)"
  by code_simp




text \<open>
  Claim C6. A failure of a sink's close is logged and swallowed: closing never raises an
  error, never ends the process, and does not keep the other sinks from being closed or
  the report from being written.

  As stated it fails: \<open>RedisProducer.Close\<close> calls \<open>log.Fatalf\<close> when the client fails to
  close. With a Redis sink that fails before a console sink, \<open>CloseProducers\<close> logs the
  failure and the process ends there: the console sink is not closed, and a report asked
  for after it writes nothing.
\<close>

theorem redis_close_failure_ends_process:
  "halted (CloseProducers demo_env
             [demo_once\<lparr>Producer := Some (RedisProducer Second ''down'')\<rparr>, demo_once] demo_world)
     = Some (Fatal (''Failed to close Redis connection:'' @ [CHR 0x0A] @ ''connection refused''))
   \<and> trace (CloseProducers demo_env
             [demo_once\<lparr>Producer := Some (RedisProducer Second ''down'')\<rparr>, demo_once] demo_world)
     = [L_Log (''Failed to close Redis connection:'' @ [CHR 0x0A] @ ''connection refused'')]
   \<and> WriteStats 0 (CloseProducers demo_env
             [demo_once\<lparr>Producer := Some (RedisProducer Second ''down'')\<rparr>, demo_once] demo_world)
     = CloseProducers demo_env
             [demo_once\<lparr>Producer := Some (RedisProducer Second ''down'')\<rparr>, demo_once] demo_world"
  by code_simp

text \<open>
  Claim C6, as amended. When the close of every sink returns, \<open>CloseProducers\<close> closes every
  producer that is not nil, in the order of the emitters, and does nothing else. At the
  first sink whose close does not return the process has ended: the sinks before it have
  been closed, that sink and the sinks after it have not, nothing but log lines follows
  the closes, and \<open>WriteStats\<close> after it writes no report. When that sink is a Redis sink
  whose client fails to close, the single line logged is the \<open>log.Fatalf\<close> message of
  \<open>RedisProducer.Close\<close> with the error, and the process ends with that message.
\<close>

theorem CloseProducers_stops_at_first_failure:
  assumes "halted w = None"
  shows "(list_all (closes_cleanly E) (List.map_filter Producer es) \<longrightarrow>
            CloseProducers E es w = emit (map L_Close (List.map_filter Producer es)) w
            \<and> halted (CloseProducers E es w) = None)
       \<and> (\<forall>before p after.
            List.map_filter Producer es = before @ p # after
            \<and> list_all (closes_cleanly E) before \<and> \<not> closes_cleanly E p \<longrightarrow>
              halted (CloseProducers E es w) \<noteq> None
              \<and> (\<exists>ls. trace (CloseProducers E es w) = trace w @ map L_Close before @ ls \<and> list_all is_Log ls)
              \<and> WriteStats now (CloseProducers E es w) = CloseProducers E es w)
       \<and> (\<forall>before ttl client err after.
            List.map_filter Producer es = before @ RedisProducer ttl client # after
            \<and> list_all (closes_cleanly E) before \<and> redisClose E client = Some err \<longrightarrow>
              trace (CloseProducers E es w)
                = trace w @ map L_Close before
                  @ [L_Log (''Failed to close Redis connection:'' @ [CHR 0x0A] @ err)]
              \<and> halted (CloseProducers E es w)
                  = Some (Fatal (''Failed to close Redis connection:'' @ [CHR 0x0A] @ err)))"
proof (intro conjI allI impI)
  assume c: "list_all (closes_cleanly E) (List.map_filter Producer es)"
  from CloseProducers_clean [OF assms c]
  show "CloseProducers E es w = emit (map L_Close (List.map_filter Producer es)) w"
    and "halted (CloseProducers E es w) = None"
    using assms by simp_all
next
  fix before p after
  assume a: "List.map_filter Producer es = before @ p # after
            \<and> list_all (closes_cleanly E) before \<and> \<not> closes_cleanly E p"
  then have e: "CloseProducers E es w = Close E p (emit (map L_Close before) w)"
    using CloseProducers_first_failure [OF assms] by blast
  from a have "\<not> closes_cleanly E p" by simp
  note U = Close_unclean [OF this, of "emit (map L_Close before) w"]
  from U show "halted (CloseProducers E es w) \<noteq> None" by (simp add: e)
  from U show "\<exists>ls. trace (CloseProducers E es w) = trace w @ map L_Close before @ ls \<and> list_all is_Log ls"
    by (simp add: e)
  from U show "WriteStats now (CloseProducers E es w) = CloseProducers E es w"
    by (auto simp: e WriteStats_def)
next
  fix before ttl client err after
  assume a: "List.map_filter Producer es = before @ RedisProducer ttl client # after
            \<and> list_all (closes_cleanly E) before \<and> redisClose E client = Some err"
  then have "\<not> closes_cleanly E (RedisProducer ttl client)" by (simp add: closes_cleanly_def)
  with a have e: "CloseProducers E es w = Close E (RedisProducer ttl client) (emit (map L_Close before) w)"
    using CloseProducers_first_failure [OF assms] by blast
  from a show "trace (CloseProducers E es w)
                = trace w @ map L_Close before
                  @ [L_Log (''Failed to close Redis connection:'' @ [CHR 0x0A] @ err)]"
    by (simp add: e Close_def)
  from a show "halted (CloseProducers E es w)
                  = Some (Fatal (''Failed to close Redis connection:'' @ [CHR 0x0A] @ err))"
    by (simp add: e Close_def)
qed

theorem CloseProducers_stops_at_first_failure_witness:
  "halted demo_world = None
   \<and> list_all (closes_cleanly demo_env)
        (List.map_filter Producer [demo_once, demo_fresh ''b'' ''http'', demo_periodic])
   \<and> trace (CloseProducers demo_env [demo_once, demo_fresh ''b'' ''http'', demo_periodic] demo_world)
        = [L_Close (KonsoleProducer ''out''), L_Close (KonsoleProducer ''out'')]
   \<and> halted (CloseProducers demo_env [demo_once, demo_fresh ''b'' ''http'', demo_periodic] demo_world) = None
   \<and> List.map_filter Producer
        [demo_once, demo_once\<lparr>Producer := Some (RedisProducer Second ''down'')\<rparr>, demo_periodic]
       = [KonsoleProducer ''out''] @ RedisProducer Second ''down'' # [KonsoleProducer ''out'']
   \<and> list_all (closes_cleanly demo_env) [KonsoleProducer ''out'']
   \<and> \<not> closes_cleanly demo_env (RedisProducer Second ''down'')
   \<and> redisClose demo_env ''down'' = Some ''connection refused''
   \<and> trace (CloseProducers demo_env
        [demo_once, demo_once\<lparr>Producer := Some (RedisProducer Second ''down'')\<rparr>, demo_periodic] demo_world)
       = [L_Close (KonsoleProducer ''out''),
          L_Log (''Failed to close Redis connection:'' @ [CHR 0x0A] @ ''connection refused'')]
   \<and> halted (CloseProducers demo_env
        [demo_once, demo_once\<lparr>Producer := Some (RedisProducer Second ''down'')\<rparr>, demo_periodic] demo_world)
       = Some (Fatal (''Failed to close Redis connection:'' @ [CHR 0x0A] @ ''connection refused''))
   \<and> WriteStats 0 (CloseProducers demo_env
        [demo_once, demo_once\<lparr>Producer := Some (RedisProducer Second ''down'')\<rparr>, demo_periodic] demo_world)
       = CloseProducers demo_env
        [demo_once, demo_once\<lparr>Producer := Some (RedisProducer Second ''down'')\<rparr>, demo_periodic] demo_world"
proof -
  let ?ok = "[demo_once, demo_fresh ''b'' ''http'', demo_periodic]"
  let ?bad = "[demo_once, demo_once\<lparr>Producer := Some (RedisProducer Second ''down'')\<rparr>, demo_periodic]"
  have h: "halted demo_world = None" by (simp add: demo_world_def)
  have t: "trace demo_world = []" by (simp add: demo_world_def)
  have c: "list_all (closes_cleanly demo_env) (List.map_filter Producer ?ok)"
    by code_simp
  have m: "map L_Close (List.map_filter Producer ?ok)
             = [L_Close (KonsoleProducer ''out''), L_Close (KonsoleProducer ''out'')]"
    by code_simp
  have s: "List.map_filter Producer ?bad
       = [KonsoleProducer ''out''] @ RedisProducer Second ''down'' # [KonsoleProducer ''out'']"
    by code_simp
  have b: "list_all (closes_cleanly demo_env) [KonsoleProducer ''out'']" by code_simp
  have n: "\<not> closes_cleanly demo_env (RedisProducer Second ''down'')" by code_simp
  have r: "redisClose demo_env ''down'' = Some ''connection refused''" by (simp add: demo_env_def)
  note T = CloseProducers_stops_at_first_failure [OF h, of demo_env]
  from T [of ?ok 0] c
  have e: "CloseProducers demo_env ?ok demo_world = emit (map L_Close (List.map_filter Producer ?ok)) demo_world"
    by blast
  have 1: "trace (CloseProducers demo_env ?ok demo_world)
        = [L_Close (KonsoleProducer ''out''), L_Close (KonsoleProducer ''out'')]
      \<and> halted (CloseProducers demo_env ?ok demo_world) = None"
    unfolding e m by (simp add: t h)
  from T [of ?bad 0] s b n
  have 2: "WriteStats 0 (CloseProducers demo_env ?bad demo_world) = CloseProducers demo_env ?bad demo_world"
    by blast
  from T [of ?bad 0] s b r
  have "trace (CloseProducers demo_env ?bad demo_world)
          = trace demo_world @ map L_Close [KonsoleProducer ''out'']
            @ [L_Log (''Failed to close Redis connection:'' @ [CHR 0x0A] @ ''connection refused'')]
        \<and> halted (CloseProducers demo_env ?bad demo_world)
          = Some (Fatal (''Failed to close Redis connection:'' @ [CHR 0x0A] @ ''connection refused''))"
    by blast
  then have 3: "trace (CloseProducers demo_env ?bad demo_world)
       = [L_Close (KonsoleProducer ''out''),
          L_Log (''Failed to close Redis connection:'' @ [CHR 0x0A] @ ''connection refused'')]
     \<and> halted (CloseProducers demo_env ?bad demo_world)
       = Some (Fatal (''Failed to close Redis connection:'' @ [CHR 0x0A] @ ''connection refused''))"
    by (simp add: t)
  from h c 1 s b n r 2 3 show ?thesis by (intro conjI) (erule conjunct1 conjunct2 | assumption)+
qed

text \<open>
  Claim C7. With an elapsed time of zero the report holds the object and byte counts and
  leaves the throughput line out, so nothing is divided by zero seconds; the elapsed time
  shown is rounded to whole seconds.

  As stated it fails: \<open>WriteStats\<close> prints the throughput line under no condition. With five
  objects, fifty bytes and no time elapsed the line is there, its operands fifty bytes and
  zero nanoseconds.
\<close>

theorem WriteStats_zero_elapsed_prints_throughput:
  "trace (WriteStats 0 (demo_world\<lparr>ctx := demo_ctx\<lparr>GeneratedObjects := 5, GeneratedBytes := 50\<rparr>\<rparr>))
     = [L_Print Blank, L_Print (ElapsedTime 0), L_Print (DataObjects 5), L_Print (DataBytes 50),
        L_Print (Throughput 50 0), L_Print Blank]"
  by code_simp

text \<open>
  Claim C7, as amended. Whatever the elapsed time, the report is the same six lines: a
  blank line, the elapsed time, the objects, the bytes, the throughput line with the bytes
  and the elapsed time as its operands, a blank line. The elapsed time is the difference
  of the two instants, kept inside the range of \<open>Duration\<close>. The time shown is that elapsed
  time rounded to whole seconds, a half second going away from zero, and kept inside the
  range of \<open>Duration\<close> again. With no time elapsed the throughput line is printed with a
  divisor of zero, and the time shown is zero.
\<close>

theorem WriteStats_report:
  assumes "halted w = None"
  shows "trace (WriteStats now w) = trace w @
           [L_Print Blank,
            L_Print (ElapsedTime
              (let d = max minDuration (min maxDuration (now - StartTime (ctx w)));
                   q = sgn d * (Second * ((\<bar>d\<bar> + Second div 2) div Second))
               in if q > maxDuration then maxDuration else if q < minDuration then minDuration else q)),
            L_Print (DataObjects (GeneratedObjects (ctx w))),
            L_Print (DataBytes (GeneratedBytes (ctx w))),
            L_Print (Throughput (GeneratedBytes (ctx w))
              (max minDuration (min maxDuration (now - StartTime (ctx w))))),
            L_Print Blank]
       \<and> L_Print (Throughput (GeneratedBytes (ctx w)) 0) \<in> set (trace (WriteStats (StartTime (ctx w)) w))
       \<and> L_Print (ElapsedTime 0) \<in> set (trace (WriteStats (StartTime (ctx w)) w))"
proof -
  define d where "d = max minDuration (min maxDuration (now - StartTime (ctx w)))"
  have sd: "Since now (StartTime (ctx w)) = d"
    by (simp add: Since_def d_def max_def min_def minDuration_def maxDuration_def)
  have rng: "minDuration \<le> d" "d \<le> maxDuration"
    by (simp_all add: d_def minDuration_def maxDuration_def)
  note R = Round_Second_exact [OF rng]
  have first: "trace (WriteStats now w) = trace w @
           [L_Print Blank,
            L_Print (ElapsedTime (Round d Second)),
            L_Print (DataObjects (GeneratedObjects (ctx w))),
            L_Print (DataBytes (GeneratedBytes (ctx w))),
            L_Print (Throughput (GeneratedBytes (ctx w)) d),
            L_Print Blank]"
    using assms by (simp add: WriteStats_def Let_def sd)
  have A: "trace (WriteStats now w) = trace w @
           [L_Print Blank,
            L_Print (ElapsedTime
              (let d = max minDuration (min maxDuration (now - StartTime (ctx w)));
                   q = sgn d * (Second * ((\<bar>d\<bar> + Second div 2) div Second))
               in if q > maxDuration then maxDuration else if q < minDuration then minDuration else q)),
            L_Print (DataObjects (GeneratedObjects (ctx w))),
            L_Print (DataBytes (GeneratedBytes (ctx w))),
            L_Print (Throughput (GeneratedBytes (ctx w))
              (max minDuration (min maxDuration (now - StartTime (ctx w))))),
            L_Print Blank]"
    unfolding Let_def d_def [symmetric] R [symmetric] by (rule first)
  have z: "Since (StartTime (ctx w)) (StartTime (ctx w)) = 0"
    by (simp add: Since_def minDuration_def maxDuration_def)
  have r0: "Round 0 Second = 0"
    by (simp add: Round_def go_rem_def Second_def)
  have B: "trace (WriteStats (StartTime (ctx w)) w) = trace w @
           [L_Print Blank, L_Print (ElapsedTime 0),
            L_Print (DataObjects (GeneratedObjects (ctx w))),
            L_Print (DataBytes (GeneratedBytes (ctx w))),
            L_Print (Throughput (GeneratedBytes (ctx w)) 0),
            L_Print Blank]"
    using assms by (simp add: WriteStats_def Let_def z r0)
  have C: "L_Print (Throughput (GeneratedBytes (ctx w)) 0) \<in> set (trace (WriteStats (StartTime (ctx w)) w))"
    and D: "L_Print (ElapsedTime 0) \<in> set (trace (WriteStats (StartTime (ctx w)) w))"
    unfolding B by simp_all
  from A C D show ?thesis by (intro conjI)
qed

theorem WriteStats_report_witness:
  "halted demo_world = None
   \<and> trace (WriteStats 2500000000 demo_world)
        = [L_Print Blank, L_Print (ElapsedTime (3 * Second)), L_Print (DataObjects 0),
           L_Print (DataBytes 0), L_Print (Throughput 0 2500000000), L_Print Blank]
   \<and> trace (WriteStats (- 2500000000) demo_world)
        = [L_Print Blank, L_Print (ElapsedTime (- 3 * Second)), L_Print (DataObjects 0),
           L_Print (DataBytes 0), L_Print (Throughput 0 (- 2500000000)), L_Print Blank]
   \<and> trace (WriteStats (2 ^ 64) demo_world)
        = [L_Print Blank, L_Print (ElapsedTime maxDuration), L_Print (DataObjects 0),
           L_Print (DataBytes 0), L_Print (Throughput 0 maxDuration), L_Print Blank]"
proof -
  have h: "halted demo_world = None" by (simp add: demo_world_def)
  have c: "ctx demo_world = demo_ctx" "trace demo_world = []" by (simp_all add: demo_world_def)
  have s: "StartTime demo_ctx = 0" "GeneratedObjects demo_ctx = 0" "GeneratedBytes demo_ctx = 0"
    by (simp_all add: demo_ctx_def)
  from WriteStats_report [OF h, of 2500000000]
  have 1: "trace (WriteStats 2500000000 demo_world)
        = [L_Print Blank, L_Print (ElapsedTime (3 * Second)), L_Print (DataObjects 0),
           L_Print (DataBytes 0), L_Print (Throughput 0 2500000000), L_Print Blank]"
    by (simp add: c s Second_def maxDuration_def minDuration_def Let_def)
  from WriteStats_report [OF h, of "- 2500000000"]
  have 2: "trace (WriteStats (- 2500000000) demo_world)
        = [L_Print Blank, L_Print (ElapsedTime (- 3 * Second)), L_Print (DataObjects 0),
           L_Print (DataBytes 0), L_Print (Throughput 0 (- 2500000000)), L_Print Blank]"
    by (simp add: c s Second_def maxDuration_def minDuration_def Let_def)
  from WriteStats_report [OF h, of "2 ^ 64"]
  have 3: "trace (WriteStats (2 ^ 64) demo_world)
        = [L_Print Blank, L_Print (ElapsedTime maxDuration), L_Print (DataObjects 0),
           L_Print (DataBytes 0), L_Print (Throughput 0 maxDuration), L_Print Blank]"
    by (simp add: c s Second_def maxDuration_def minDuration_def Let_def)
  from h 1 2 3 show ?thesis by simp
qed

text \<open>
  Claim C8. An emitter whose initialization fails (its sink cannot be built, or its output
  kind is no known backend) is not scheduled: no pass runs for an emitter without a sink,
  and the failure is reported apart from the per-record errors.

  An emitter of kind \<open>http\<close>: \<open>Initialize\<close> leaves it as it was, its \<open>Producer\<close> nil, logs
  nothing and goes on. \<open>DoLoop\<close> starts a goroutine for every emitter it is given, with no
  test of the \<open>Producer\<close> (\<open>CloseProducers\<close> has one). The goroutine begins its pass, and
  the call of \<open>Produce\<close> on the nil \<open>Producer\<close> panics.
\<close>

theorem uninitialized_emitter_is_scheduled:
  "Initialize demo_env demo_conf [] [demo_fresh ''a'' ''http''] demo_world
     = ([demo_fresh ''a'' ''http''],
        demo_world\<lparr>trace := [L_NewTpl ''out'' ''out'', L_NewTpl ''key'' ''key'', L_NewTpl ''value'' []]\<rparr>)
   \<and> Producer (demo_fresh ''a'' ''http'') = None
   \<and> map_option
        (\<lambda>s. (dead s, passes (did (tasks s ! 0)), produced (did (tasks s ! 0))))
        (exec demo_env [demo_fresh ''a'' ''http''] (Spawn # replicate 8 (Step 0)) (DoLoop_init demo_ctx 1))
      = Some (Some (Panic ''invalid memory address or nil pointer dereference''), 1, 0)"
  by code_simp

text \<open>
  Claim C9. Every increment of \<open>GeneratedObjects\<close> and \<open>GeneratedBytes\<close>, by every task on
  every record, is atomic or synchronized, so that concurrent tasks lose no update.

  The increments are plain \<open>++\<close> and \<open>+=\<close> on fields of the shared context, with no lock
  and no atomic operation. Two periodic emitters tick at the same time, after one second;
  each goroutine reads each counter before the other writes it. After the interrupt
  \<open>DoLoop\<close> returns: two records of ten bytes went to the sinks, the counters say one
  object and ten bytes.
\<close>

theorem counter_updates_lost:
  "map_option
     (\<lambda>s. (returned s, map (\<lambda>t. (produced (did t), value_bytes (did t))) (tasks s),
           GeneratedObjects (shared s), GeneratedBytes (shared s)))
     (exec demo_env [demo_ticking, demo_ticking] race_periodic (DoLoop_init demo_ctx 2))
   = Some (True, [(1, 10), (1, 10)], 1, 10)"
  by code_simp

text \<open>
  Claim C10. For a list of emitter names that is not empty, \<open>Initialize\<close> initializes and
  preloads exactly the emitters whose \<open>Name\<close> is in the list and leaves every other emitter
  as it was, a nil \<open>Producer\<close> nil; for an empty list it initializes and preloads every emitter.

  The slice keeps its length. The emitter at index \<open>i\<close> is, when selected, the result of
  its turn in the state the loop has reached at \<open>i\<close>, and unchanged otherwise; the world
  after the call is what the turns of the selected emitters, in order, make of it.
  When the call returns, the turn of a selected emitter has parsed its output template,
  then the key template and the value template of the template file, and has handed
  \<open>Preload\<close> records to the emitter's own new sink and to no other; it has added \<open>Preload\<close> to
  \<open>GeneratedObjects\<close> and the bytes of the values to \<open>GeneratedBytes\<close>; the emitter differs
  from what it was in its \<open>Producer\<close> alone, which is the console, Kafka, Redis or Mongo sink
  its output kind names, built from the configuration, and the old \<open>Producer\<close> for any other
  kind. The turn of an emitter that is not selected leaves the world as it was. Over the
  whole call the records handed over and \<open>GeneratedObjects\<close> grow by the sum of \<open>Preload\<close>
  over the selected emitters.
\<close>

theorem Initialize_selects:
  "i < length es \<longrightarrow>
     length (fst (Initialize E conf names es w)) = length es
     \<and> fst (Initialize E conf names es w) ! i =
         (if names = [] \<or> Name (es ! i) \<in> set names
          then fst (init_one E conf (es ! i) (snd (Initialize E conf names (take i es) w)))
          else es ! i)
     \<and> (if names = [] \<or> Name (es ! i) \<in> set names then True
         else Producer (fst (Initialize E conf names es w) ! i) = Producer (es ! i))
     \<and> snd (Initialize E conf names es w) =
         foldl (\<lambda>w e. snd (init_one E conf e w)) w
           (filter (\<lambda>e. names = [] \<or> Name e \<in> set names) es)
     \<and> (halted (snd (Initialize E conf names es w)) = None \<longrightarrow>
          (if names = [] \<or> Name (es ! i) \<in> set names
           then (\<exists>ls. trace (snd (Initialize E conf names (take (Suc i) es) w))
                       = trace (snd (Initialize E conf names (take i es) w))
                         @ L_NewTpl ''out'' (OutputTemplate (es ! i)) # ls
                    \<and> filter is_NewTpl ls =
                        [L_NewTpl ''key'' (KeyTemplate (es ! i)),
                         L_NewTpl ''value''
                           (case ReadFile E (ExpandEnv E (TemplateDir conf) @ ''/'' @ ValueTemplate (es ! i) @ ''.tpl'')
                            of Inl err \<Rightarrow> [] | Inr d \<Rightarrow> d)]
                    \<and> produced ls = nat (Preload (es ! i))
                    \<and> list_all (pass_label (Producer (fst (Initialize E conf names es w) ! i))) ls
                    \<and> GeneratedBytes (ctx (snd (Initialize E conf names (take (Suc i) es) w)))
                        = GeneratedBytes (ctx (snd (Initialize E conf names (take i es) w))) + value_bytes ls)
                \<and> GeneratedObjects (ctx (snd (Initialize E conf names (take (Suc i) es) w)))
                    = GeneratedObjects (ctx (snd (Initialize E conf names (take i es) w)))
                      + of_nat (nat (Preload (es ! i)))
                \<and> fst (Initialize E conf names es w) ! i
                    = (es ! i)\<lparr>Producer := Producer (fst (Initialize E conf names es w) ! i)\<rparr>
                \<and> (if Output (es ! i) = ''stdout''
                    then Producer (fst (Initialize E conf names es w) ! i)
                           = Some (KonsoleProducer (fst (NewTpl E ''out'' (OutputTemplate (es ! i)))))
                    else if Output (es ! i) = ''kafka''
                    then Producer (fst (Initialize E conf names es w) ! i)
                           = Some (KafkaManager (Serializer conf) (Topic (es ! i)) (ValueTemplate (es ! i)))
                    else if Output (es ! i) = ''redis''
                    then (\<exists>data options. ReadFile E (RedisConfig conf) = Inr data
                           \<and> jsonUnmarshal E data = Inr options
                           \<and> Producer (fst (Initialize E conf names es w) ! i)
                               = Some (RedisProducer (RedisTtl conf) options))
                    else if Output (es ! i) = ''mongo'' \<or> Output (es ! i) = ''mongodb''
                    then Producer (fst (Initialize E conf names es w) ! i)
                           = Some (MongoProducer (MongoConfig conf))
                    else Producer (fst (Initialize E conf names es w) ! i) = Producer (es ! i))
           else snd (Initialize E conf names (take (Suc i) es) w)
                  = snd (Initialize E conf names (take i es) w))
          \<and> produced (trace (snd (Initialize E conf names es w)))
              = produced (trace w)
                + sum_list (map (\<lambda>e. nat (Preload e)) (filter (\<lambda>e. names = [] \<or> Name e \<in> set names) es))
          \<and> GeneratedObjects (ctx (snd (Initialize E conf names es w)))
              = GeneratedObjects (ctx w)
                + of_nat (sum_list (map (\<lambda>e. nat (Preload e))
                                      (filter (\<lambda>e. names = [] \<or> Name e \<in> set names) es))))"
proof
  assume i: "i < length es"
  define R where "R = Initialize E conf names es w"
  define W0 where "W0 = snd (Initialize E conf names (take i es) w)"
  define W1 where "W1 = snd (Initialize E conf names (take (Suc i) es) w)"
  define e where "e = es ! i"
  define e' where "e' = fst R ! i"
  have sel: "selected names = (\<lambda>e. names = [] \<or> Name e \<in> set names)"
    by (simp add: selected_def [abs_def])
  have a: "length (fst R) = length es" unfolding R_def by (rule Initialize_length)
  have b: "e' = (if names = [] \<or> Name e \<in> set names then fst (init_one E conf e W0) else e)"
    using Initialize_nth [of i es E conf names w] i
    by (simp add: sel e'_def R_def e_def W0_def)
  have c: "if names = [] \<or> Name e \<in> set names then True else Producer e' = Producer e"
    using b by simp
  have d: "snd R = foldl (\<lambda>w e. snd (init_one E conf e w)) w (filter (\<lambda>e. names = [] \<or> Name e \<in> set names) es)"
    using Initialize_world [of E conf names es w] by (simp add: sel R_def)
  have st: "W1 = (if names = [] \<or> Name e \<in> set names then snd (init_one E conf e W0) else W0)"
    using Initialize_step [OF i, of E conf names w] by (simp add: sel W1_def W0_def e_def)
  have f: "halted (snd R) = None \<longrightarrow>
          (if names = [] \<or> Name e \<in> set names
           then (\<exists>ls. trace W1 = trace W0 @ L_NewTpl ''out'' (OutputTemplate e) # ls
                    \<and> filter is_NewTpl ls =
                        [L_NewTpl ''key'' (KeyTemplate e),
                         L_NewTpl ''value''
                           (case ReadFile E (ExpandEnv E (TemplateDir conf) @ ''/'' @ ValueTemplate e @ ''.tpl'')
                            of Inl err \<Rightarrow> [] | Inr d \<Rightarrow> d)]
                    \<and> produced ls = nat (Preload e)
                    \<and> list_all (pass_label (Producer e')) ls
                    \<and> GeneratedBytes (ctx W1) = GeneratedBytes (ctx W0) + value_bytes ls)
                \<and> GeneratedObjects (ctx W1) = GeneratedObjects (ctx W0) + of_nat (nat (Preload e))
                \<and> e' = e\<lparr>Producer := Producer e'\<rparr>
                \<and> (if Output e = ''stdout''
                    then Producer e' = Some (KonsoleProducer (fst (NewTpl E ''out'' (OutputTemplate e))))
                    else if Output e = ''kafka''
                    then Producer e' = Some (KafkaManager (Serializer conf) (Topic e) (ValueTemplate e))
                    else if Output e = ''redis''
                    then (\<exists>data options. ReadFile E (RedisConfig conf) = Inr data
                           \<and> jsonUnmarshal E data = Inr options
                           \<and> Producer e' = Some (RedisProducer (RedisTtl conf) options))
                    else if Output e = ''mongo'' \<or> Output e = ''mongodb''
                    then Producer e' = Some (MongoProducer (MongoConfig conf))
                    else Producer e' = Producer e)
           else W1 = W0)
          \<and> produced (trace (snd R))
              = produced (trace w)
                + sum_list (map (\<lambda>e. nat (Preload e)) (filter (\<lambda>e. names = [] \<or> Name e \<in> set names) es))
          \<and> GeneratedObjects (ctx (snd R))
              = GeneratedObjects (ctx w)
                + of_nat (sum_list (map (\<lambda>e. nat (Preload e))
                                      (filter (\<lambda>e. names = [] \<or> Name e \<in> set names) es)))"
  proof
    assume h: "halted (snd R) = None"
    from Initialize_totals [of E conf names es w] h
    have tot: "produced (trace (snd R))
              = produced (trace w)
                + sum_list (map (\<lambda>e. nat (Preload e)) (filter (\<lambda>e. names = [] \<or> Name e \<in> set names) es))
          \<and> GeneratedObjects (ctx (snd R))
              = GeneratedObjects (ctx w)
                + of_nat (sum_list (map (\<lambda>e. nat (Preload e))
                                      (filter (\<lambda>e. names = [] \<or> Name e \<in> set names) es)))"
      by (simp add: sel R_def)
    from h have h1: "halted W1 = None"
      unfolding R_def W1_def by (rule Initialize_prefix_alive)
    show "(if names = [] \<or> Name e \<in> set names
           then (\<exists>ls. trace W1 = trace W0 @ L_NewTpl ''out'' (OutputTemplate e) # ls
                    \<and> filter is_NewTpl ls =
                        [L_NewTpl ''key'' (KeyTemplate e),
                         L_NewTpl ''value''
                           (case ReadFile E (ExpandEnv E (TemplateDir conf) @ ''/'' @ ValueTemplate e @ ''.tpl'')
                            of Inl err \<Rightarrow> [] | Inr d \<Rightarrow> d)]
                    \<and> produced ls = nat (Preload e)
                    \<and> list_all (pass_label (Producer e')) ls
                    \<and> GeneratedBytes (ctx W1) = GeneratedBytes (ctx W0) + value_bytes ls)
                \<and> GeneratedObjects (ctx W1) = GeneratedObjects (ctx W0) + of_nat (nat (Preload e))
                \<and> e' = e\<lparr>Producer := Producer e'\<rparr>
                \<and> (if Output e = ''stdout''
                    then Producer e' = Some (KonsoleProducer (fst (NewTpl E ''out'' (OutputTemplate e))))
                    else if Output e = ''kafka''
                    then Producer e' = Some (KafkaManager (Serializer conf) (Topic e) (ValueTemplate e))
                    else if Output e = ''redis''
                    then (\<exists>data options. ReadFile E (RedisConfig conf) = Inr data
                           \<and> jsonUnmarshal E data = Inr options
                           \<and> Producer e' = Some (RedisProducer (RedisTtl conf) options))
                    else if Output e = ''mongo'' \<or> Output e = ''mongodb''
                    then Producer e' = Some (MongoProducer (MongoConfig conf))
                    else Producer e' = Producer e)
           else W1 = W0)
          \<and> produced (trace (snd R))
              = produced (trace w)
                + sum_list (map (\<lambda>e. nat (Preload e)) (filter (\<lambda>e. names = [] \<or> Name e \<in> set names) es))
          \<and> GeneratedObjects (ctx (snd R))
              = GeneratedObjects (ctx w)
                + of_nat (sum_list (map (\<lambda>e. nat (Preload e))
                                      (filter (\<lambda>e. names = [] \<or> Name e \<in> set names) es)))"
    proof (cases "names = [] \<or> Name e \<in> set names")
      case True
      with st b have w1: "W1 = snd (init_one E conf e W0)" and e1: "e' = fst (init_one E conf e W0)"
        by simp_all
      from h1 have hi: "halted (snd (init_one E conf e W0)) = None" by (simp add: w1)
      note eff = init_one_effect [OF hi, unfolded w1 [symmetric] e1 [symmetric]]
      note pk = init_one_Producer [OF hi, unfolded e1 [symmetric]]
      from eff have ex: "\<exists>ls. trace W1 = trace W0 @ L_NewTpl ''out'' (OutputTemplate e) # ls
                    \<and> filter is_NewTpl ls =
                        [L_NewTpl ''key'' (KeyTemplate e),
                         L_NewTpl ''value''
                           (case ReadFile E (ExpandEnv E (TemplateDir conf) @ ''/'' @ ValueTemplate e @ ''.tpl'')
                            of Inl err \<Rightarrow> [] | Inr d \<Rightarrow> d)]
                    \<and> produced ls = nat (Preload e)
                    \<and> list_all (pass_label (Producer e')) ls
                    \<and> GeneratedBytes (ctx W1) = GeneratedBytes (ctx W0) + value_bytes ls"
        by (rule conjunct1)
      from eff have go: "GeneratedObjects (ctx W1) = GeneratedObjects (ctx W0) + of_nat (nat (Preload e))"
        by (elim conjE)
      from eff have fe: "e' = e\<lparr>Producer := Producer e'\<rparr>"
        by (elim conjE)
      show ?thesis unfolding if_P [OF True]
        by (intro conjI) (rule ex go fe pk tot [THEN conjunct1] tot [THEN conjunct2])+
    next
      case False
      with st tot show ?thesis by simp
    qed
  qed
  from a b c d f
  show "length (fst (Initialize E conf names es w)) = length es
     \<and> fst (Initialize E conf names es w) ! i =
         (if names = [] \<or> Name (es ! i) \<in> set names
          then fst (init_one E conf (es ! i) (snd (Initialize E conf names (take i es) w)))
          else es ! i)
     \<and> (if names = [] \<or> Name (es ! i) \<in> set names then True
         else Producer (fst (Initialize E conf names es w) ! i) = Producer (es ! i))
     \<and> snd (Initialize E conf names es w) =
         foldl (\<lambda>w e. snd (init_one E conf e w)) w
           (filter (\<lambda>e. names = [] \<or> Name e \<in> set names) es)
     \<and> (halted (snd (Initialize E conf names es w)) = None \<longrightarrow>
          (if names = [] \<or> Name (es ! i) \<in> set names
           then (\<exists>ls. trace (snd (Initialize E conf names (take (Suc i) es) w))
                       = trace (snd (Initialize E conf names (take i es) w))
                         @ L_NewTpl ''out'' (OutputTemplate (es ! i)) # ls
                    \<and> filter is_NewTpl ls =
                        [L_NewTpl ''key'' (KeyTemplate (es ! i)),
                         L_NewTpl ''value''
                           (case ReadFile E (ExpandEnv E (TemplateDir conf) @ ''/'' @ ValueTemplate (es ! i) @ ''.tpl'')
                            of Inl err \<Rightarrow> [] | Inr d \<Rightarrow> d)]
                    \<and> produced ls = nat (Preload (es ! i))
                    \<and> list_all (pass_label (Producer (fst (Initialize E conf names es w) ! i))) ls
                    \<and> GeneratedBytes (ctx (snd (Initialize E conf names (take (Suc i) es) w)))
                        = GeneratedBytes (ctx (snd (Initialize E conf names (take i es) w))) + value_bytes ls)
                \<and> GeneratedObjects (ctx (snd (Initialize E conf names (take (Suc i) es) w)))
                    = GeneratedObjects (ctx (snd (Initialize E conf names (take i es) w)))
                      + of_nat (nat (Preload (es ! i)))
                \<and> fst (Initialize E conf names es w) ! i
                    = (es ! i)\<lparr>Producer := Producer (fst (Initialize E conf names es w) ! i)\<rparr>
                \<and> (if Output (es ! i) = ''stdout''
                    then Producer (fst (Initialize E conf names es w) ! i)
                           = Some (KonsoleProducer (fst (NewTpl E ''out'' (OutputTemplate (es ! i)))))
                    else if Output (es ! i) = ''kafka''
                    then Producer (fst (Initialize E conf names es w) ! i)
                           = Some (KafkaManager (Serializer conf) (Topic (es ! i)) (ValueTemplate (es ! i)))
                    else if Output (es ! i) = ''redis''
                    then (\<exists>data options. ReadFile E (RedisConfig conf) = Inr data
                           \<and> jsonUnmarshal E data = Inr options
                           \<and> Producer (fst (Initialize E conf names es w) ! i)
                               = Some (RedisProducer (RedisTtl conf) options))
                    else if Output (es ! i) = ''mongo'' \<or> Output (es ! i) = ''mongodb''
                    then Producer (fst (Initialize E conf names es w) ! i)
                           = Some (MongoProducer (MongoConfig conf))
                    else Producer (fst (Initialize E conf names es w) ! i) = Producer (es ! i))
           else snd (Initialize E conf names (take (Suc i) es) w)
                  = snd (Initialize E conf names (take i es) w))
          \<and> produced (trace (snd (Initialize E conf names es w)))
              = produced (trace w)
                + sum_list (map (\<lambda>e. nat (Preload e)) (filter (\<lambda>e. names = [] \<or> Name e \<in> set names) es))
          \<and> GeneratedObjects (ctx (snd (Initialize E conf names es w)))
              = GeneratedObjects (ctx w)
                + of_nat (sum_list (map (\<lambda>e. nat (Preload e))
                                      (filter (\<lambda>e. names = [] \<or> Name e \<in> set names) es))))"
    unfolding R_def W0_def W1_def e_def e'_def by blast
qed

theorem Initialize_selects_witness:
  "(1::nat) < length [(demo_fresh ''a'' ''stdout'')\<lparr>Preload := 3\<rparr>, (demo_fresh ''b'' ''stdout'')\<lparr>Preload := 2\<rparr>]
   \<and> halted (snd (Initialize demo_files demo_conf [''b'']
        [(demo_fresh ''a'' ''stdout'')\<lparr>Preload := 3\<rparr>, (demo_fresh ''b'' ''stdout'')\<lparr>Preload := 2\<rparr>] demo_world)) = None
   \<and> map Producer (fst (Initialize demo_files demo_conf [''b'']
        [(demo_fresh ''a'' ''stdout'')\<lparr>Preload := 3\<rparr>, (demo_fresh ''b'' ''stdout'')\<lparr>Preload := 2\<rparr>] demo_world))
      = [None, Some (KonsoleProducer ''out'')]
   \<and> trace (snd (Initialize demo_files demo_conf [''b'']
        [(demo_fresh ''a'' ''stdout'')\<lparr>Preload := 3\<rparr>, (demo_fresh ''b'' ''stdout'')\<lparr>Preload := 2\<rparr>] demo_world))
      = [L_NewTpl ''out'' ''out'', L_NewTpl ''key'' ''key'', L_NewTpl ''value'' ''0123456789'',
         L_Produce (KonsoleProducer ''out'') ''key'' ''0123456789'',
         L_Produce (KonsoleProducer ''out'') ''key'' ''0123456789'']
   \<and> produced (trace (snd (Initialize demo_files demo_conf [''b'']
        [(demo_fresh ''a'' ''stdout'')\<lparr>Preload := 3\<rparr>, (demo_fresh ''b'' ''stdout'')\<lparr>Preload := 2\<rparr>] demo_world))) = 2
   \<and> GeneratedObjects (ctx (snd (Initialize demo_files demo_conf [''b'']
        [(demo_fresh ''a'' ''stdout'')\<lparr>Preload := 3\<rparr>, (demo_fresh ''b'' ''stdout'')\<lparr>Preload := 2\<rparr>] demo_world))) = 2
   \<and> halted (snd (Initialize demo_files demo_conf []
        [(demo_fresh ''a'' ''stdout'')\<lparr>Preload := 3\<rparr>, (demo_fresh ''b'' ''stdout'')\<lparr>Preload := 2\<rparr>] demo_world)) = None
   \<and> produced (trace (snd (Initialize demo_files demo_conf []
        [(demo_fresh ''a'' ''stdout'')\<lparr>Preload := 3\<rparr>, (demo_fresh ''b'' ''stdout'')\<lparr>Preload := 2\<rparr>] demo_world))) = 5
   \<and> GeneratedObjects (ctx (snd (Initialize demo_files demo_conf []
        [(demo_fresh ''a'' ''stdout'')\<lparr>Preload := 3\<rparr>, (demo_fresh ''b'' ''stdout'')\<lparr>Preload := 2\<rparr>] demo_world))) = 5"
proof -
  let ?es = "[(demo_fresh ''a'' ''stdout'')\<lparr>Preload := 3\<rparr>, (demo_fresh ''b'' ''stdout'')\<lparr>Preload := 2\<rparr>]"
  have i: "(1::nat) < length ?es" by simp
  have h1: "halted (snd (Initialize demo_files demo_conf [''b''] ?es demo_world)) = None" by code_simp
  have h2: "halted (snd (Initialize demo_files demo_conf [] ?es demo_world)) = None" by code_simp
  have a: "map Producer (fst (Initialize demo_files demo_conf [''b''] ?es demo_world))
      = [None, Some (KonsoleProducer ''out'')]"
    by code_simp
  have t: "trace (snd (Initialize demo_files demo_conf [''b''] ?es demo_world))
      = [L_NewTpl ''out'' ''out'', L_NewTpl ''key'' ''key'', L_NewTpl ''value'' ''0123456789'',
         L_Produce (KonsoleProducer ''out'') ''key'' ''0123456789'',
         L_Produce (KonsoleProducer ''out'') ''key'' ''0123456789'']"
    by code_simp
  have n: "filter (\<lambda>e. [''b''] = [] \<or> Name e \<in> set [''b'']) ?es = [(demo_fresh ''b'' ''stdout'')\<lparr>Preload := 2\<rparr>]"
    by (simp add: demo_fresh_def)
  have z: "produced (trace demo_world) = 0" "GeneratedObjects (ctx demo_world) = 0"
    by (simp_all add: demo_world_def demo_ctx_def produced_def)
  from Initialize_selects [of 1 ?es demo_files demo_conf "[''b'']" demo_world] i h1
  have "produced (trace (snd (Initialize demo_files demo_conf [''b''] ?es demo_world)))
              = produced (trace demo_world)
                + sum_list (map (\<lambda>e. nat (Preload e)) (filter (\<lambda>e. [''b''] = [] \<or> Name e \<in> set [''b'']) ?es))
          \<and> GeneratedObjects (ctx (snd (Initialize demo_files demo_conf [''b''] ?es demo_world)))
              = GeneratedObjects (ctx demo_world)
                + of_nat (sum_list (map (\<lambda>e. nat (Preload e))
                                      (filter (\<lambda>e. [''b''] = [] \<or> Name e \<in> set [''b'']) ?es)))"
    by blast
  then have 1: "produced (trace (snd (Initialize demo_files demo_conf [''b''] ?es demo_world))) = 2
     \<and> GeneratedObjects (ctx (snd (Initialize demo_files demo_conf [''b''] ?es demo_world))) = 2"
    unfolding n z by simp
  from Initialize_selects [of 1 ?es demo_files demo_conf "[]" demo_world] i h2
  have "produced (trace (snd (Initialize demo_files demo_conf [] ?es demo_world)))
              = produced (trace demo_world)
                + sum_list (map (\<lambda>e. nat (Preload e)) (filter (\<lambda>e. ([]::string list) = [] \<or> Name e \<in> set []) ?es))
          \<and> GeneratedObjects (ctx (snd (Initialize demo_files demo_conf [] ?es demo_world)))
              = GeneratedObjects (ctx demo_world)
                + of_nat (sum_list (map (\<lambda>e. nat (Preload e))
                                      (filter (\<lambda>e. ([]::string list) = [] \<or> Name e \<in> set []) ?es)))"
    by blast
  then have 2: "produced (trace (snd (Initialize demo_files demo_conf [] ?es demo_world))) = 5
     \<and> GeneratedObjects (ctx (snd (Initialize demo_files demo_conf [] ?es demo_world))) = 5"
    unfolding z by simp
  from i h1 a t 1 h2 2 show ?thesis by (intro conjI) (erule conjunct1 conjunct2 | assumption)+
qed

end
